theory Spec2Isabelle
  imports Complex_Main
begin

section \<open>Python values\<close>

text \<open>
  The statepoints and job documents of the project are plain JSON-like data. A float is
  kept as the number its literal denotes (none is computed with); a dictionary keeps its
  items in insertion order.
\<close>

datatype pyval =
    PNone
  | PBool bool
  | PInt int
  | PFloat rat
  | PStr string
  | PList "pyval list"
  | PDict "(string \<times> pyval) list"

type_synonym pydict = "(string \<times> pyval) list"

datatype error =
    AttributeError string string  \<comment> \<open>the object read, the missing attribute\<close>
  | KeyError string
  | TypeError string
  | UnboundLocalError string
  | RunnerError string            \<comment> \<open>whatever the external optimizer raises\<close>

text \<open>Sequencing of fallible steps: the first exception ends the computation.\<close>

definition bindE :: "error + 'a \<Rightarrow> ('a \<Rightarrow> error + 'b) \<Rightarrow> error + 'b" where
  "bindE m f = (case m of Inl e \<Rightarrow> Inl e | Inr x \<Rightarrow> f x)"

text \<open>\<^verbatim>\<open>d[k] = v\<close> on a dictionary: an existing key keeps its place, a new key is appended.\<close>

primrec setitem :: "string \<Rightarrow> pyval \<Rightarrow> pydict \<Rightarrow> pydict" where
  "setitem k v [] = [(k, v)]"
| "setitem k v (p # ps) = (if fst p = k then (k, v) # ps else p # setitem k v ps)"

text \<open>\<^verbatim>\<open>dict(pairs)\<close>: the items are inserted from left to right.\<close>

definition dict :: "(string \<times> pyval) list \<Rightarrow> pydict" where
  "dict kvs = foldl (\<lambda>d kv. setitem (fst kv) (snd kv) d) [] kvs"

text \<open>\<^verbatim>\<open>d.get(k)\<close>: \<^verbatim>\<open>None\<close> for a missing key.\<close>

definition dict_get :: "pydict \<Rightarrow> string \<Rightarrow> pyval" where
  "dict_get d k = (case map_of d k of None \<Rightarrow> PNone | Some v \<Rightarrow> v)"

text \<open>Truth value of an object, as \<^verbatim>\<open>if x:\<close> tests it.\<close>

fun truthy :: "pyval \<Rightarrow> bool" where
  "truthy PNone = False"
| "truthy (PBool b) = b"
| "truthy (PInt i) = (i \<noteq> 0)"
| "truthy (PFloat r) = (r \<noteq> 0)"
| "truthy (PStr s) = (s \<noteq> [])"
| "truthy (PList xs) = (xs \<noteq> [])"
| "truthy (PDict d) = (d \<noteq> [])"

section \<open>init.py: the parameter space and the jobs\<close>

text \<open>
  \<^verbatim>\<open>itertools.product(*lists)\<close>: nested loops, the rightmost list advancing fastest.
\<close>

fun itertools_product :: "'a list list \<Rightarrow> 'a list list" where
  "itertools_product [] = [[]]"
| "itertools_product (xs # xss) =
     concat (map (\<lambda>x. map (\<lambda>rest. x # rest) (itertools_product xss)) xs)"

text \<open>
  The ordered dictionary \<^verbatim>\<open>parameters\<close> of \<^verbatim>\<open>get_parameters\<close>, as it stands in the
  source: the candidate lists of \<^verbatim>\<open>integrator\<close> and \<^verbatim>\<open>integrator_kwargs\<close> are empty.
\<close>

definition parameters :: "(string \<times> pyval list) list" where
  "parameters =
    [(''potential_cutoff'', [PFloat 5]),
     (''num_rdf_points'', [PInt 101]),
     (''num_rdf_frames'', [PInt 5]),
     (''smooth_rdf'', [PBool True]),
     (''rdf_exclude_bonded'', [PBool False]),
     (''r_switch'', [PNone]),
     (''integrator'', []),
     (''integrator_kwargs'', []),
     (''dt'', [PFloat (1 / 1000)]),
     (''gsd_period'', [PInt 1000]),
     (''initial_potential'', [PStr ''mie'']),
     (''iterations'', [PInt 20]),
     (''n_steps'', [PFloat 1000000]),
     (''states'', [PList [PDict [], PDict [], PDict []]]),
     (''pairs'', [PList [PDict [], PDict [], PDict []]]),
     (''bonds'', [PList [PDict [], PDict [], PDict []]]),
     (''angles'', [PList [PDict [], PDict [], PDict []]])]"

text \<open>
  The last line of \<^verbatim>\<open>get_parameters\<close>, for any ordered dictionary:
  \<^verbatim>\<open>list(parameters.keys()), list(product(*parameters.values()))\<close>.
\<close>

definition expand :: "(string \<times> pyval list) list \<Rightarrow> string list \<times> pyval list list" where
  "expand ps = (map fst ps, itertools_product (map snd ps))"

definition get_parameters :: "string list \<times> pyval list list" where
  "get_parameters = expand parameters"

text \<open>
  The workspace store is content-addressed: \<^verbatim>\<open>open_job\<close> followed by \<^verbatim>\<open>init\<close> adds a
  job for a statepoint unless the project already holds one with that content.
\<close>

definition open_job_init :: "pydict \<Rightarrow> pydict list \<Rightarrow> pydict list" where
  "open_job_init statepoint project =
     (if statepoint \<in> set project then project else project @ [statepoint])"

text \<open>The loop of \<^verbatim>\<open>main\<close>; the result is the list of the statepoints of the jobs created.\<close>

definition main_with :: "string list \<times> pyval list list \<Rightarrow> pydict list" where
  "main_with space =
     foldl (\<lambda>project params. open_job_init (dict (zip (fst space) params)) project)
       [] (snd space)"

definition main :: "pydict list" where
  "main = main_with get_parameters"

section \<open>project.py: jobs and the objects of the optimizer\<close>

text \<open>
  A job: its statepoint \<^verbatim>\<open>job.sp\<close>, its document \<^verbatim>\<open>job.doc\<close> and its workspace
  directory \<^verbatim>\<open>job.ws\<close>.
\<close>

record job =
  sp :: pydict
  doc :: pydict
  ws :: string

text \<open>
  \<^verbatim>\<open>job.sp.name\<close> and \<^verbatim>\<open>job.doc.name\<close>: attribute access on a synced dictionary raises
  \<^verbatim>\<open>AttributeError\<close> for a missing key.
\<close>

definition getattr :: "string \<Rightarrow> pydict \<Rightarrow> string \<Rightarrow> error + pyval" where
  "getattr obj d k = (case map_of d k of None \<Rightarrow> Inl (AttributeError obj k) | Some v \<Rightarrow> Inr v)"

text \<open>\<^verbatim>\<open>x[k]\<close> with a string key: only a dictionary can be subscripted by a string.\<close>

fun getitem :: "pyval \<Rightarrow> string \<Rightarrow> error + pyval" where
  "getitem (PDict d) k = (case map_of d k of None \<Rightarrow> Inl (KeyError k) | Some v \<Rightarrow> Inr v)"
| "getitem v k = Inl (TypeError ''not subscriptable by a string'')"

text \<open>\<^verbatim>\<open>for x in v\<close>: the items of a list, the keys of a dictionary, the characters of a string.\<close>

fun iter :: "pyval \<Rightarrow> error + pyval list" where
  "iter (PList xs) = Inr xs"
| "iter (PDict d) = Inr (map (\<lambda>kv. PStr (fst kv)) d)"
| "iter (PStr s) = Inr (map (\<lambda>c. PStr [c]) s)"
| "iter v = Inl (TypeError ''not iterable'')"

text \<open>\<^verbatim>\<open>k in v.keys()\<close>.\<close>

fun has_key :: "pyval \<Rightarrow> string \<Rightarrow> error + bool" where
  "has_key (PDict d) k = Inr (k \<in> set (map fst d))"
| "has_key v k = Inl (AttributeError ''pair'' ''keys'')"

text \<open>
  The objects of the external package \<^verbatim>\<open>msibi\<close> are value objects here: a constructor
  stores its arguments, \<^verbatim>\<open>set_harmonic\<close> stores the two parameters, and
  \<^verbatim>\<open>add_state\<close>, \<^verbatim>\<open>add_pair\<close>, \<^verbatim>\<open>add_bond\<close> append to the optimizer's lists.
  The functions \<^verbatim>\<open>morse\<close> and \<^verbatim>\<open>mie\<close> are kept as the calls made.
\<close>

record state =
  state_name :: pyval
  state_kT :: pyval
  state_traj_file :: string
  state_alpha :: pyval
  state_dir :: string

datatype potential =
    Given pyval
  | morse pyval pyval pyval
  | mie pyval pyval pyval

record pair =
  pair_type1 :: pyval
  pair_type2 :: pyval
  pair_potential :: potential
  head_correction_form :: pyval

record bond =
  bond_type1 :: pyval
  bond_type2 :: pyval
  bond_harmonic :: "(pyval \<times> pyval) option"  \<comment> \<open>\<open>k\<close> and \<open>r0\<close>\<close>

record angle =
  angle_type1 :: pyval
  angle_type2 :: pyval
  angle_type3 :: pyval
  angle_harmonic :: "(pyval \<times> pyval) option"  \<comment> \<open>\<open>k\<close> and \<open>theta0\<close>\<close>

record msibi =
  integrator :: pyval
  integrator_kwargs :: pyval
  dt :: pyval
  gsd_period :: pyval
  n_iterations :: pyval
  n_steps :: pyval
  states :: "state list"
  pairs :: "pair list"
  bonds :: "bond list"
  angles :: "angle list"

text \<open>
  What the code does not decide: the value of \<^verbatim>\<open>opt.pot_r\<close> before the optimization,
  the run of \<^verbatim>\<open>optimize_pairs\<close> (it raises, or returns and leaves \<^verbatim>\<open>opt.dr\<close> and
  \<^verbatim>\<open>opt.pot_r\<close>), and which files exist.
\<close>

record env =
  pot_r :: "msibi \<Rightarrow> error + pyval"
  optimize_pairs :: "msibi \<Rightarrow> pydict \<Rightarrow> error + pyval \<times> pyval"
  isfile :: "string \<Rightarrow> bool"

subsection \<open>os.path on POSIX\<close>

definition startswith_sep :: "string \<Rightarrow> bool" where
  "startswith_sep s = (case s of [] \<Rightarrow> False | c # cs \<Rightarrow> c = CHR ''/'')"

text \<open>One round of the loop of \<^verbatim>\<open>posixpath.join\<close>.\<close>

definition join2 :: "string \<Rightarrow> string \<Rightarrow> string" where
  "join2 path b =
     (if startswith_sep b then b
      else if path = [] \<or> last path = CHR ''/'' then path @ b
      else path @ ''/'' @ b)"

definition path_join :: "string \<Rightarrow> string list \<Rightarrow> string" where
  "path_join a p = foldl join2 a p"

text \<open>\<^verbatim>\<open>path.split('/')\<close> and \<^verbatim>\<open>'/'.join(comps)\<close>.\<close>

fun split_sep :: "string \<Rightarrow> string list" where
  "split_sep [] = [[]]"
| "split_sep (c # cs) =
     (if c = CHR ''/'' then [] # split_sep cs
      else (case split_sep cs of [] \<Rightarrow> [[c]] | part # parts \<Rightarrow> (c # part) # parts))"

fun sep_join :: "string list \<Rightarrow> string" where
  "sep_join [] = []"
| "sep_join [c] = c"
| "sep_join (c # d # cs) = c @ ''/'' @ sep_join (d # cs)"

text \<open>One round of the loop of \<^verbatim>\<open>posixpath.normpath\<close> over the components.\<close>

definition norm_step :: "nat \<Rightarrow> string list \<Rightarrow> string \<Rightarrow> string list" where
  "norm_step initial_slashes new_comps part =
     (if part = [] \<or> part = ''.'' then new_comps
      else if part = ''..'' then
        (if (initial_slashes = 0 \<and> new_comps = []) \<or>
            (new_comps \<noteq> [] \<and> last new_comps = ''..'')
         then new_comps @ [part]
         else if new_comps \<noteq> [] then butlast new_comps
         else new_comps)
      else new_comps @ [part])"

definition normpath :: "string \<Rightarrow> string" where
  "normpath path =
     (if path = [] then ''.''
      else
        let initial_slashes =
              (if startswith_sep path
               then (if take 2 path = ''//'' \<and> take 3 path \<noteq> ''///'' then 2 else 1)
               else 0);
            comps = foldl (norm_step initial_slashes) [] (split_sep path);
            p = replicate initial_slashes CHR ''/'' @ sep_join comps
        in if p = [] then ''.'' else p)"

text \<open>\<^verbatim>\<open>os.path.abspath\<close>, the current directory given.\<close>

definition abspath :: "string \<Rightarrow> string \<Rightarrow> string" where
  "abspath cwd path = normpath (if startswith_sep path then path else path_join cwd [path])"

subsection \<open>The operation optimize\<close>

text \<open>
  \<^verbatim>\<open>os.path.abspath(os.path.join(job.ws, "..", "..", state["target_trajectory"]))\<close>;
  inside \<^verbatim>\<open>with job:\<close> the current directory is the workspace of the job.
\<close>

definition traj_file_path :: "string \<Rightarrow> string \<Rightarrow> string" where
  "traj_file_path w target = abspath w (path_join w [''..'', ''..'', target])"

text \<open>\<^verbatim>\<open>os.path.join\<close> accepts strings only.\<close>

fun fspath :: "pyval \<Rightarrow> error + string" where
  "fspath (PStr s) = Inr s"
| "fspath v = Inl (TypeError ''expected str'')"

text \<open>The body of the loop over \<^verbatim>\<open>job.sp.states\<close>, up to the call of \<^verbatim>\<open>add_state\<close>.\<close>

definition new_State :: "string \<Rightarrow> pyval \<Rightarrow> error + state" where
  "new_State w s =
     bindE (getitem s ''target_trajectory'') (\<lambda>target.
     bindE (fspath target) (\<lambda>t.
     bindE (getitem s ''name'') (\<lambda>n.
     bindE (getitem s ''kT'') (\<lambda>k.
     bindE (getitem s ''alpha'') (\<lambda>a.
       Inr \<lparr>state_name = n, state_kT = k, state_traj_file = traj_file_path w t,
            state_alpha = a, state_dir = w\<rparr>)))))"

fun add_states :: "string \<Rightarrow> msibi \<Rightarrow> pyval list \<Rightarrow> error + msibi" where
  "add_states w opt [] = Inr opt"
| "add_states w opt (s # ss) =
     (case new_State w s of
        Inl e \<Rightarrow> Inl e
      | Inr st \<Rightarrow> add_states w (opt\<lparr>states := states opt @ [st]\<rparr>) ss)"

text \<open>
  The first statement of the loop over \<^verbatim>\<open>job.sp.pairs\<close>: the local variable
  \<^verbatim>\<open>potential\<close> after it. The variable belongs to the function, not to the round: it is
  unbound (\<open>None\<close>) before the first assignment and keeps its value from one round to
  the next. The \<^verbatim>\<open>if\<close>/\<^verbatim>\<open>elif\<close> has no \<^verbatim>\<open>else\<close>.
\<close>

definition choose_potential ::
  "env \<Rightarrow> pydict \<Rightarrow> msibi \<Rightarrow> potential option \<Rightarrow> pyval \<Rightarrow> error + potential option" where
  "choose_potential e statepoint opt potential p =
     bindE (has_key p ''potential'') (\<lambda>explicit.
       if explicit then bindE (getitem p ''potential'') (\<lambda>v. Inr (Some (Given v)))
       else
         bindE (getattr ''sp'' statepoint ''initial_potential'') (\<lambda>family.
           if family = PStr ''morse'' then
             bindE (pot_r e opt) (\<lambda>r. Inr (Some (morse r (PFloat 1) (PFloat 1))))
           else if family = PStr ''mie'' then
             bindE (getattr ''sp'' statepoint ''potential_cutoff'') (\<lambda>c.
               Inr (Some (mie c (PFloat 1) (PFloat 1))))
           else Inr potential))"

text \<open>The call \<^verbatim>\<open>Pair(...)\<close>: its keyword arguments are evaluated from left to right.\<close>

definition new_Pair :: "pydict \<Rightarrow> potential option \<Rightarrow> pyval \<Rightarrow> error + pair" where
  "new_Pair statepoint potential p =
     bindE (getitem p ''type1'') (\<lambda>t1.
     bindE (getitem p ''type2'') (\<lambda>t2.
     bindE (case potential of
              None \<Rightarrow> Inl (UnboundLocalError ''potential'')
            | Some v \<Rightarrow> Inr v) (\<lambda>v.
     bindE (getattr ''sp'' statepoint ''head_correction'') (\<lambda>h.
       Inr \<lparr>pair_type1 = t1, pair_type2 = t2, pair_potential = v,
            head_correction_form = h\<rparr>))))"

fun add_pairs ::
  "env \<Rightarrow> pydict \<Rightarrow> msibi \<Rightarrow> potential option \<Rightarrow> pyval list \<Rightarrow> error + msibi" where
  "add_pairs e statepoint opt potential [] = Inr opt"
| "add_pairs e statepoint opt potential (p # ps) =
     (case choose_potential e statepoint opt potential p of
        Inl err \<Rightarrow> Inl err
      | Inr potential' \<Rightarrow>
          (case new_Pair statepoint potential' p of
             Inl err \<Rightarrow> Inl err
           | Inr new_pair \<Rightarrow>
               add_pairs e statepoint (opt\<lparr>pairs := pairs opt @ [new_pair]\<rparr>) potential' ps))"

text \<open>The body of the loop over \<^verbatim>\<open>job.sp.bonds\<close>, up to the call of \<^verbatim>\<open>add_bond\<close>.\<close>

definition new_Bond :: "pyval \<Rightarrow> error + bond" where
  "new_Bond b =
     bindE (getitem b ''type1'') (\<lambda>t1.
     bindE (getitem b ''type2'') (\<lambda>t2.
     bindE (getitem b ''form'') (\<lambda>form.
       if form = PStr ''harmonic'' then
         bindE (getitem b ''k'') (\<lambda>k.
         bindE (getitem b ''r0'') (\<lambda>r0.
           Inr \<lparr>bond_type1 = t1, bond_type2 = t2, bond_harmonic = Some (k, r0)\<rparr>))
       else Inr \<lparr>bond_type1 = t1, bond_type2 = t2, bond_harmonic = None\<rparr>)))"

fun add_bonds :: "msibi \<Rightarrow> pyval list \<Rightarrow> error + msibi" where
  "add_bonds opt [] = Inr opt"
| "add_bonds opt (b # bs) =
     (case new_Bond b of
        Inl e \<Rightarrow> Inl e
      | Inr new_bond \<Rightarrow> add_bonds (opt\<lparr>bonds := bonds opt @ [new_bond]\<rparr>) bs)"

text \<open>
  The body of the loop over \<^verbatim>\<open>job.sp.angles\<close>. The loop builds each angle and ends
  there: it has no call that hands \<^verbatim>\<open>new_angle\<close> to the optimizer.
\<close>

definition new_Angle :: "pyval \<Rightarrow> error + angle" where
  "new_Angle a =
     bindE (getitem a ''type1'') (\<lambda>t1.
     bindE (getitem a ''type2'') (\<lambda>t2.
     bindE (getitem a ''type3'') (\<lambda>t3.
     bindE (getitem a ''form'') (\<lambda>form.
       if form = PStr ''harmonic'' then
         bindE (getitem a ''k'') (\<lambda>k.
         bindE (getitem a ''theta0'') (\<lambda>theta0.
           Inr \<lparr>angle_type1 = t1, angle_type2 = t2, angle_type3 = t3,
                angle_harmonic = Some (k, theta0)\<rparr>))
       else Inr \<lparr>angle_type1 = t1, angle_type2 = t2, angle_type3 = t3,
                 angle_harmonic = None\<rparr>))))"

fun build_angles :: "pyval list \<Rightarrow> error + angle list" where
  "build_angles [] = Inr []"
| "build_angles (a # as) =
     (case new_Angle a of
        Inl e \<Rightarrow> Inl e
      | Inr new_angle \<Rightarrow>
          (case build_angles as of Inl e \<Rightarrow> Inl e | Inr rest \<Rightarrow> Inr (new_angle # rest)))"

text \<open>The call \<^verbatim>\<open>MSIBI(...)\<close>, its arguments read from left to right.\<close>

definition new_MSIBI :: "job \<Rightarrow> error + msibi" where
  "new_MSIBI j =
     bindE (getattr ''sp'' (sp j) ''integrator'') (\<lambda>i.
     bindE (getattr ''doc'' (doc j) ''integrator_kwargs'') (\<lambda>kw.
     bindE (getattr ''sp'' (sp j) ''dt'') (\<lambda>d.
     bindE (getattr ''sp'' (sp j) ''gsd_period'') (\<lambda>g.
     bindE (getattr ''sp'' (sp j) ''iterations'') (\<lambda>it.
     bindE (getattr ''sp'' (sp j) ''n_steps'') (\<lambda>n.
       Inr \<lparr>integrator = i, integrator_kwargs = kw, dt = d, gsd_period = g,
            n_iterations = it, n_steps = n,
            states = [], pairs = [], bonds = [], angles = []\<rparr>))))))"

text \<open>The keyword arguments of the call \<^verbatim>\<open>opt.optimize_pairs(...)\<close>.\<close>

definition optimize_pairs_kwargs :: "pydict \<Rightarrow> error + pydict" where
  "optimize_pairs_kwargs statepoint =
     bindE (getattr ''sp'' statepoint ''num_rdf_frames'') (\<lambda>max_frames.
     bindE (getattr ''sp'' statepoint ''potential_cutoff'') (\<lambda>rdf_cutoff.
     bindE (getattr ''sp'' statepoint ''r_min'') (\<lambda>r_min.
     bindE (getattr ''sp'' statepoint ''r_switch'') (\<lambda>r_switch.
     bindE (getattr ''sp'' statepoint ''num_rdf_points'') (\<lambda>n_rdf_points.
     bindE (getattr ''sp'' statepoint ''smooth_rdf'') (\<lambda>smooth_rdfs.
     bindE (getattr ''sp'' statepoint ''rdf_exclude_bonded'') (\<lambda>rdf_exclude_bonded.
       Inr [(''max_frames'', max_frames), (''rdf_cutoff'', rdf_cutoff), (''r_min'', r_min),
            (''r_switch'', r_switch), (''n_rdf_points'', n_rdf_points),
            (''smooth_rdfs'', smooth_rdfs),
            (''rdf_exclude_bonded'', rdf_exclude_bonded)])))))))"

text \<open>
  The stages of \<^verbatim>\<open>optimize\<close> between the first write to the document and the call of
  \<^verbatim>\<open>optimize_pairs\<close>: the optimizer as it is handed over, and the arguments of the call.
\<close>

definition bond_stage :: "pydict \<Rightarrow> msibi \<Rightarrow> error + msibi" where
  "bond_stage statepoint opt =
     bindE (getattr ''sp'' statepoint ''bonds'') (\<lambda>bs.
       if bs \<noteq> PNone then bindE (iter bs) (add_bonds opt) else Inr opt)"

definition angle_stage :: "pydict \<Rightarrow> msibi \<Rightarrow> error + msibi" where
  "angle_stage statepoint opt =
     bindE (getattr ''sp'' statepoint ''angles'') (\<lambda>as.
       if as \<noteq> PNone then bindE (iter as) (\<lambda>xs. bindE (build_angles xs) (\<lambda>built. Inr opt))
       else Inr opt)"

definition build_problem :: "env \<Rightarrow> job \<Rightarrow> error + msibi" where
  "build_problem e j =
     bindE (new_MSIBI j) (\<lambda>opt0.
     bindE (getattr ''sp'' (sp j) ''states'') (\<lambda>ss.
     bindE (iter ss) (\<lambda>state_list.
     bindE (add_states (ws j) opt0 state_list) (\<lambda>opt1.
     bindE (getattr ''sp'' (sp j) ''pairs'') (\<lambda>ps.
     bindE (iter ps) (\<lambda>pair_list.
     bindE (add_pairs e (sp j) opt1 None pair_list) (\<lambda>opt2.
     bindE (bond_stage (sp j) opt2) (\<lambda>opt3.
     angle_stage (sp j) opt3))))))))"

definition assemble :: "env \<Rightarrow> job \<Rightarrow> error + msibi \<times> pydict" where
  "assemble e j =
     bindE (build_problem e j) (\<lambda>opt.
     bindE (optimize_pairs_kwargs (sp j)) (\<lambda>kwargs.
       Inr (opt, kwargs)))"

text \<open>
  The assignments \<^verbatim>\<open>job.doc[k] = v\<close> of a run, in the order they are made, and the
  document they leave.
\<close>

definition doc_after :: "pydict \<Rightarrow> (string \<times> pyval) list \<Rightarrow> pydict" where
  "doc_after d writes = foldl (\<lambda>d kv. setitem (fst kv) (snd kv) d) d writes"

text \<open>
  \<^verbatim>\<open>optimize(job)\<close>: the writes to the document, and the exception that ended the run or
  the optimizer after a run that returned.
\<close>

definition optimize :: "env \<Rightarrow> job \<Rightarrow> (string \<times> pyval) list \<times> (error + msibi)" where
  "optimize e j =
     (let started = [(''done'', PBool False)] in
      case assemble e (j\<lparr>doc := doc_after (doc j) started\<rparr>) of
        Inl err \<Rightarrow> (started, Inl err)
      | Inr (opt, kwargs) \<Rightarrow>
          (case optimize_pairs e opt kwargs of
             Inl err \<Rightarrow> (started, Inl err)
           | Inr (dr, grid) \<Rightarrow>
               (started @ [(''dr'', dr), (''pot_r'', grid), (''done'', PBool True)],
                Inr opt)))"

text \<open>The label \<^verbatim>\<open>completed\<close>: \<^verbatim>\<open>job.doc.get("done")\<close>.\<close>

definition completed :: "job \<Rightarrow> pyval" where
  "completed j = dict_get (doc j) ''done''"

text \<open>
  \<^verbatim>\<open>@MyProject.post(completed)\<close>: the workflow runs an operation only on a job whose
  post-condition does not hold yet. \<open>None\<close> stands for a run that was skipped.
\<close>

definition run_optimize ::
  "env \<Rightarrow> job \<Rightarrow> ((string \<times> pyval) list \<times> (error + msibi)) option" where
  "run_optimize e j = (if truthy (completed j) then None else Some (optimize e j))"

section \<open>Paths and example data used in the statements\<close>

text \<open>
  A plain path component is a name: not empty, without a separator, neither \<^verbatim>\<open>.\<close> nor
  \<^verbatim>\<open>..\<close>. An absolute path is written from its components.
\<close>

definition plain :: "string \<Rightarrow> bool" where
  "plain c = (c \<noteq> [] \<and> CHR ''/'' \<notin> set c \<and> c \<noteq> ''.'' \<and> c \<noteq> ''..'')"

definition abs_path :: "string list \<Rightarrow> string" where
  "abs_path cs = ''/'' @ sep_join cs"

text \<open>
  A statepoint over the names that \<^verbatim>\<open>get_parameters\<close> declares, with the values of the
  source; the two empty candidate lists are filled in, and the family and the four
  structured lists are given.
\<close>

definition template_statepoint :: "pyval \<Rightarrow> pyval \<Rightarrow> pyval \<Rightarrow> pyval \<Rightarrow> pyval \<Rightarrow> pydict" where
  "template_statepoint family state_list pair_list bond_list angle_list =
    [(''potential_cutoff'', PFloat 5),
     (''num_rdf_points'', PInt 101),
     (''num_rdf_frames'', PInt 5),
     (''smooth_rdf'', PBool True),
     (''rdf_exclude_bonded'', PBool False),
     (''r_switch'', PNone),
     (''integrator'', PStr ''hoomd.md.methods.NVT''),
     (''integrator_kwargs'', PDict [(''tau'', PFloat (1 / 10))]),
     (''dt'', PFloat (1 / 1000)),
     (''gsd_period'', PInt 1000),
     (''initial_potential'', family),
     (''iterations'', PInt 20),
     (''n_steps'', PFloat 1000000),
     (''states'', state_list),
     (''pairs'', pair_list),
     (''bonds'', bond_list),
     (''angles'', angle_list)]"

text \<open>The same with the two keys that \<^verbatim>\<open>optimize\<close> reads and \<^verbatim>\<open>init.py\<close> does not declare.\<close>

definition full_statepoint :: "pyval \<Rightarrow> pyval \<Rightarrow> pyval \<Rightarrow> pyval \<Rightarrow> pyval \<Rightarrow> pydict" where
  "full_statepoint family state_list pair_list bond_list angle_list =
     template_statepoint family state_list pair_list bond_list angle_list @
     [(''head_correction'', PStr ''linear''), (''r_min'', PFloat (1 / 10))]"

definition ex_state :: pyval where
  "ex_state = PDict [(''name'', PStr ''A''), (''kT'', PFloat 1),
     (''target_trajectory'', PStr ''ref.gsd''), (''alpha'', PFloat 1)]"

definition ex_pair :: pyval where
  "ex_pair = PDict [(''type1'', PStr ''A''), (''type2'', PStr ''A'')]"

definition ex_table :: pyval where
  "ex_table = PList [PFloat 3, PFloat (- 1), PFloat 0]"

definition ex_pair_explicit :: pyval where
  "ex_pair_explicit = PDict [(''type1'', PStr ''A''), (''type2'', PStr ''B''),
     (''potential'', ex_table)]"

definition ex_bond_harmonic :: pyval where
  "ex_bond_harmonic = PDict [(''type1'', PStr ''A''), (''type2'', PStr ''B''),
     (''form'', PStr ''harmonic''), (''k'', PFloat 100), (''r0'', PFloat 1)]"

definition ex_bond_table :: pyval where
  "ex_bond_table = PDict [(''type1'', PStr ''B''), (''type2'', PStr ''B''),
     (''form'', PStr ''table'')]"

definition ex_angle :: pyval where
  "ex_angle = PDict [(''type1'', PStr ''A''), (''type2'', PStr ''B''), (''type3'', PStr ''A''),
     (''form'', PStr ''harmonic''), (''k'', PFloat 50), (''theta0'', PFloat 2)]"

text \<open>
  An optimizer that returns, with a grid of two points, on a machine where no file
  exists; a document that holds the integrator's arguments; a workspace directory.
\<close>

definition ex_env :: env where
  "ex_env = \<lparr>pot_r = (\<lambda>opt. Inr (PList [PFloat 0, PFloat 1])),
     optimize_pairs = (\<lambda>opt kwargs. Inr (PFloat 1, PList [PFloat 0, PFloat 1])),
     isfile = (\<lambda>path. False)\<rparr>"

definition ex_doc :: pydict where
  "ex_doc = [(''integrator_kwargs'', PDict [(''tau'', PFloat (1 / 10))])]"

definition ex_ws :: string where
  "ex_ws = ''/home/user/project/workspace/0a1b2c''"

text \<open>
  A job with one state, a pair with an explicit potential and a pair without, a harmonic
  bond and a bond of another form, and a harmonic angle; and the optimizer and the
  arguments that the assembly of this job arrives at.
\<close>

definition ex_job :: job where
  "ex_job = \<lparr>sp = full_statepoint (PStr ''mie'') (PList [ex_state])
       (PList [ex_pair_explicit, ex_pair]) (PList [ex_bond_harmonic, ex_bond_table])
       (PList [ex_angle]),
     doc = ex_doc, ws = ex_ws\<rparr>"

definition ex_problem :: msibi where
  "ex_problem =
     \<lparr>integrator = PStr ''hoomd.md.methods.NVT'',
      integrator_kwargs = PDict [(''tau'', PFloat (1 / 10))],
      dt = PFloat (1 / 1000), gsd_period = PInt 1000,
      n_iterations = PInt 20, n_steps = PFloat 1000000,
      states = [\<lparr>state_name = PStr ''A'', state_kT = PFloat 1,
        state_traj_file = ''/home/user/project/ref.gsd'', state_alpha = PFloat 1,
        state_dir = ''/home/user/project/workspace/0a1b2c''\<rparr>],
      pairs = [\<lparr>pair_type1 = PStr ''A'', pair_type2 = PStr ''B'',
          pair_potential = Given (PList [PFloat 3, PFloat (- 1), PFloat 0]),
          head_correction_form = PStr ''linear''\<rparr>,
        \<lparr>pair_type1 = PStr ''A'', pair_type2 = PStr ''A'',
          pair_potential = mie (PFloat 5) (PFloat 1) (PFloat 1),
          head_correction_form = PStr ''linear''\<rparr>],
      bonds = [\<lparr>bond_type1 = PStr ''A'', bond_type2 = PStr ''B'',
          bond_harmonic = Some (PFloat 100, PFloat 1)\<rparr>,
        \<lparr>bond_type1 = PStr ''B'', bond_type2 = PStr ''B'', bond_harmonic = None\<rparr>],
      angles = []\<rparr>"

definition ex_kwargs :: pydict where
  "ex_kwargs =
     [(''max_frames'', PInt 5), (''rdf_cutoff'', PFloat 5), (''r_min'', PFloat (1 / 10)),
      (''r_switch'', PNone), (''n_rdf_points'', PInt 101), (''smooth_rdfs'', PBool True),
      (''rdf_exclude_bonded'', PBool False)]"

text \<open>
  The job of one state and one pair, without bonds and angles, and what its assembly
  arrives at.
\<close>

definition ex_job_plain :: job where
  "ex_job_plain = \<lparr>sp = full_statepoint (PStr ''mie'') (PList [ex_state]) (PList [ex_pair])
       PNone PNone,
     doc = ex_doc, ws = ex_ws\<rparr>"

definition ex_problem_plain :: msibi where
  "ex_problem_plain = ex_problem
     \<lparr>pairs := [\<lparr>pair_type1 = PStr ''A'', pair_type2 = PStr ''A'',
          pair_potential = mie (PFloat 5) (PFloat 1) (PFloat 1),
          head_correction_form = PStr ''linear''\<rparr>],
      bonds := []\<rparr>"

section \<open>Facts about the parameter space\<close>



lemma itertools_product_empty:
  "[] \<in> set xss \<Longrightarrow> itertools_product xss = []"
proof (induction xss)
  case Nil
  then show ?case by simp
next
  case (Cons xs xss)
  show ?case
  proof (cases "xs = []")
    case True
    then show ?thesis by simp
  next
    case False
    with Cons have "itertools_product xss = []" by auto
    then show ?thesis by simp
  qed
qed







section \<open>Claims about the parameter space\<close>

text \<open>
  C4, amended. The specification asks for a configuration error when a candidate list
  is empty. \<^verbatim>\<open>get_parameters\<close> and \<^verbatim>\<open>main\<close> contain no check and raise nothing: an
  empty candidate list makes the Cartesian product empty, and the loop of \<^verbatim>\<open>main\<close>
  creates no job.
\<close>

theorem empty_candidates_yield_no_jobs:
  "[] \<in> set (map snd ps) \<Longrightarrow> snd (expand ps) = [] \<and> main_with (expand ps) = []"
  by (simp add: expand_def main_with_def itertools_product_empty)

theorem empty_candidates_yield_no_jobs_witness:
  "[] \<in> set (map snd [(''dt'', [PFloat 1]), (''integrator'', [])]) \<and>
   snd (expand [(''dt'', [PFloat 1]), (''integrator'', [])]) = [] \<and>
   main_with (expand [(''dt'', [PFloat 1]), (''integrator'', [])]) = []"
  using empty_candidates_yield_no_jobs [of "[(''dt'', [PFloat 1]), (''integrator'', [])]"]
  by simp

text \<open>
  C4, counterexample: the parameters of the source themselves have two empty candidate
  lists; \<^verbatim>\<open>get_parameters\<close> returns the seventeen names with no combination, and
  \<^verbatim>\<open>main\<close> finishes with zero jobs.
\<close>

theorem get_parameters_silently_empty:
  "(''integrator'', []) \<in> set parameters \<and> length (fst get_parameters) = 17 \<and>
   snd get_parameters = [] \<and> main = []"
  by (simp add: get_parameters_def main_def main_with_def expand_def parameters_def)




section \<open>Facts about the assembly\<close>

lemmas path_defs = traj_file_path_def abspath_def path_join_def join2_def startswith_sep_def
  normpath_def norm_step_def

lemmas stage_defs = build_problem_def assemble_def new_MSIBI_def new_State_def
  choose_potential_def new_Pair_def new_Bond_def new_Angle_def bond_stage_def angle_stage_def
  optimize_pairs_kwargs_def bindE_def getattr_def

lemmas ex_defs = full_statepoint_def template_statepoint_def ex_state_def ex_pair_def
  ex_table_def ex_pair_explicit_def ex_bond_harmonic_def ex_bond_table_def ex_angle_def
  ex_env_def ex_doc_def ex_ws_def

lemma bindE_Inr_iff: "bindE m f = Inr y \<longleftrightarrow> (\<exists>x. m = Inr x \<and> f x = Inr y)"
  by (cases m) (simp_all add: bindE_def)

lemma getattr_Inr_iff: "getattr obj d k = Inr v \<longleftrightarrow> map_of d k = Some v"
  by (simp add: getattr_def split: option.splits)

lemma build_problem_stages:
  assumes "build_problem e j = Inr opt"
  obtains opt0 ss state_list opt1 ps pair_list opt2 opt3 where
    "new_MSIBI j = Inr opt0"
    "map_of (sp j) ''states'' = Some ss" "iter ss = Inr state_list"
    "add_states (ws j) opt0 state_list = Inr opt1"
    "map_of (sp j) ''pairs'' = Some ps" "iter ps = Inr pair_list"
    "add_pairs e (sp j) opt1 None pair_list = Inr opt2"
    "bond_stage (sp j) opt2 = Inr opt3"
    "angle_stage (sp j) opt3 = Inr opt"
  using assms unfolding build_problem_def bindE_Inr_iff getattr_Inr_iff by auto

lemma assemble_Inr:
  "assemble e j = Inr (opt, kw) \<longleftrightarrow>
     build_problem e j = Inr opt \<and> optimize_pairs_kwargs (sp j) = Inr kw"
  unfolding assemble_def bindE_Inr_iff by auto

lemma new_MSIBI_lists:
  "new_MSIBI j = Inr opt0 \<Longrightarrow>
     states opt0 = [] \<and> pairs opt0 = [] \<and> bonds opt0 = [] \<and> angles opt0 = []"
  unfolding new_MSIBI_def bindE_Inr_iff by auto

lemma add_states_result:
  "add_states w opt xs = Inr opt' \<Longrightarrow>
   \<exists>new. opt' = opt\<lparr>states := states opt @ new\<rparr> \<and>
     list_all2 (\<lambda>s st. new_State w s = Inr st) xs new"
proof (induction xs arbitrary: opt)
  case Nil
  then show ?case by simp
next
  case (Cons s xs)
  from Cons.prems obtain st where st: "new_State w s = Inr st"
    and rest: "add_states w (opt\<lparr>states := states opt @ [st]\<rparr>) xs = Inr opt'"
    by (auto split: sum.splits)
  from Cons.IH [OF rest] obtain new where
    "opt' = opt\<lparr>states := states opt @ [st]\<rparr>
       \<lparr>states := states (opt\<lparr>states := states opt @ [st]\<rparr>) @ new\<rparr>"
    "list_all2 (\<lambda>s st. new_State w s = Inr st) xs new"
    by blast
  with st have "opt' = opt\<lparr>states := states opt @ (st # new)\<rparr> \<and>
      list_all2 (\<lambda>s st. new_State w s = Inr st) (s # xs) (st # new)"
    by simp
  then show ?case by blast
qed

lemma add_bonds_result:
  "add_bonds opt xs = Inr opt' \<Longrightarrow>
   \<exists>new. opt' = opt\<lparr>bonds := bonds opt @ new\<rparr> \<and>
     list_all2 (\<lambda>b bd. new_Bond b = Inr bd) xs new"
proof (induction xs arbitrary: opt)
  case Nil
  then show ?case by simp
next
  case (Cons b xs)
  from Cons.prems obtain bd where bd: "new_Bond b = Inr bd"
    and rest: "add_bonds (opt\<lparr>bonds := bonds opt @ [bd]\<rparr>) xs = Inr opt'"
    by (auto split: sum.splits)
  from Cons.IH [OF rest] obtain new where
    "opt' = opt\<lparr>bonds := bonds opt @ [bd]\<rparr>
       \<lparr>bonds := bonds (opt\<lparr>bonds := bonds opt @ [bd]\<rparr>) @ new\<rparr>"
    "list_all2 (\<lambda>b bd. new_Bond b = Inr bd) xs new"
    by blast
  with bd have "opt' = opt\<lparr>bonds := bonds opt @ (bd # new)\<rparr> \<and>
      list_all2 (\<lambda>b bd. new_Bond b = Inr bd) (b # xs) (bd # new)"
    by simp
  then show ?case by blast
qed

lemma add_pairs_result:
  "add_pairs e statepoint opt potential xs = Inr opt' \<Longrightarrow>
   \<exists>new. opt' = opt\<lparr>pairs := pairs opt @ new\<rparr> \<and> length new = length xs \<and>
     (\<forall>i < length xs. \<exists>before v handed.
        choose_potential e statepoint handed before (xs ! i) = Inr (Some v) \<and>
        new_Pair statepoint (Some v) (xs ! i) = Inr (new ! i))"
proof (induction xs arbitrary: opt potential)
  case Nil
  then show ?case by simp
next
  case (Cons p xs)
  from Cons.prems obtain potential' new_pair where
    ch: "choose_potential e statepoint opt potential p = Inr potential'"
    and np: "new_Pair statepoint potential' p = Inr new_pair"
    and rest: "add_pairs e statepoint (opt\<lparr>pairs := pairs opt @ [new_pair]\<rparr>) potential' xs
       = Inr opt'"
    by (auto split: sum.splits)
  from np obtain v where v: "potential' = Some v"
    by (cases potential') (auto simp: new_Pair_def bindE_def split: sum.splits)
  let ?opt1 = "opt\<lparr>pairs := pairs opt @ [new_pair]\<rparr>"
  from Cons.IH [OF rest] obtain new where
    new: "opt' = ?opt1\<lparr>pairs := pairs ?opt1 @ new\<rparr>" "length new = length xs"
    "\<forall>i < length xs. \<exists>before v handed.
        choose_potential e statepoint handed before (xs ! i) = Inr (Some v) \<and>
        new_Pair statepoint (Some v) (xs ! i) = Inr (new ! i)"
    by blast
  have "\<exists>before v handed.
        choose_potential e statepoint handed before ((p # xs) ! i) = Inr (Some v) \<and>
        new_Pair statepoint (Some v) ((p # xs) ! i) = Inr ((new_pair # new) ! i)"
    if "i < length (p # xs)" for i
  proof (cases i)
    case 0
    with ch np v show ?thesis by auto
  next
    case (Suc k)
    with that new(3) show ?thesis by simp
  qed
  with new(1,2) have "opt' = opt\<lparr>pairs := pairs opt @ (new_pair # new)\<rparr> \<and>
      length (new_pair # new) = length (p # xs) \<and>
     (\<forall>i < length (p # xs). \<exists>before v handed.
        choose_potential e statepoint handed before ((p # xs) ! i) = Inr (Some v) \<and>
        new_Pair statepoint (Some v) ((p # xs) ! i) = Inr ((new_pair # new) ! i))"
    by simp
  then show ?case by blast
qed

lemma angle_stage_same: "angle_stage statepoint opt = Inr opt' \<Longrightarrow> opt' = opt"
  by (auto simp: angle_stage_def bindE_Inr_iff split: if_splits)

lemma bond_stage_result:
  assumes "bond_stage statepoint opt = Inr opt'"
  shows "(map_of statepoint ''bonds'' = Some PNone \<and> opt' = opt) \<or>
     (\<exists>bs xs new. map_of statepoint ''bonds'' = Some bs \<and> bs \<noteq> PNone \<and> iter bs = Inr xs \<and>
        opt' = opt\<lparr>bonds := bonds opt @ new\<rparr> \<and>
        list_all2 (\<lambda>b bd. new_Bond b = Inr bd) xs new)"
proof -
  from assms obtain bs where bs: "map_of statepoint ''bonds'' = Some bs"
    and body: "(if bs \<noteq> PNone then bindE (iter bs) (add_bonds opt) else Inr opt) = Inr opt'"
    unfolding bond_stage_def bindE_Inr_iff getattr_Inr_iff by blast
  show ?thesis
  proof (cases "bs = PNone")
    case True
    with bs body show ?thesis by simp
  next
    case False
    with body obtain xs where xs: "iter bs = Inr xs" "add_bonds opt xs = Inr opt'"
      by (auto simp: bindE_Inr_iff)
    from add_bonds_result [OF xs(2)] bs False xs(1) show ?thesis by blast
  qed
qed

lemma build_problem_states:
  assumes "build_problem e j = Inr opt"
  shows "\<exists>ss state_list. map_of (sp j) ''states'' = Some ss \<and> iter ss = Inr state_list \<and>
     list_all2 (\<lambda>s st. new_State (ws j) s = Inr st) state_list (states opt)"
proof -
  from assms obtain opt0 ss state_list opt1 ps pair_list opt2 opt3 where st:
    "new_MSIBI j = Inr opt0"
    "map_of (sp j) ''states'' = Some ss" "iter ss = Inr state_list"
    "add_states (ws j) opt0 state_list = Inr opt1"
    "add_pairs e (sp j) opt1 None pair_list = Inr opt2"
    "bond_stage (sp j) opt2 = Inr opt3"
    "angle_stage (sp j) opt3 = Inr opt"
    by (rule build_problem_stages)
  from add_states_result [OF st(4)] new_MSIBI_lists [OF st(1)] obtain new where
    "states opt1 = new" "list_all2 (\<lambda>s st. new_State (ws j) s = Inr st) state_list new"
    by auto
  moreover from add_pairs_result [OF st(5)] have "states opt2 = states opt1" by auto
  moreover from bond_stage_result [OF st(6)] have "states opt3 = states opt2" by auto
  moreover from angle_stage_same [OF st(7)] have "opt = opt3" .
  ultimately show ?thesis using st(2,3) by auto
qed

lemma build_problem_pairs:
  assumes "build_problem e j = Inr opt"
  shows "\<exists>ps pair_list. map_of (sp j) ''pairs'' = Some ps \<and> iter ps = Inr pair_list \<and>
     length (pairs opt) = length pair_list \<and>
     (\<forall>i < length pair_list. \<exists>before v handed.
        choose_potential e (sp j) handed before (pair_list ! i) = Inr (Some v) \<and>
        new_Pair (sp j) (Some v) (pair_list ! i) = Inr (pairs opt ! i))"
proof -
  from assms obtain opt0 ss state_list opt1 ps pair_list opt2 opt3 where st:
    "new_MSIBI j = Inr opt0"
    "add_states (ws j) opt0 state_list = Inr opt1"
    "map_of (sp j) ''pairs'' = Some ps" "iter ps = Inr pair_list"
    "add_pairs e (sp j) opt1 None pair_list = Inr opt2"
    "bond_stage (sp j) opt2 = Inr opt3"
    "angle_stage (sp j) opt3 = Inr opt"
    by (rule build_problem_stages)
  from add_states_result [OF st(2)] new_MSIBI_lists [OF st(1)] have "pairs opt1 = []"
    by auto
  with add_pairs_result [OF st(5)] obtain new where
    new: "pairs opt2 = new" "length new = length pair_list"
      "\<forall>i < length pair_list. \<exists>before v handed.
        choose_potential e (sp j) handed before (pair_list ! i) = Inr (Some v) \<and>
        new_Pair (sp j) (Some v) (pair_list ! i) = Inr (new ! i)"
    by auto
  moreover from bond_stage_result [OF st(6)] have "pairs opt3 = pairs opt2" by auto
  moreover from angle_stage_same [OF st(7)] have "opt = opt3" .
  ultimately show ?thesis using st(3,4) by auto
qed

lemma build_problem_bonds:
  assumes "build_problem e j = Inr opt"
  shows "(map_of (sp j) ''bonds'' = Some PNone \<and> bonds opt = []) \<or>
     (\<exists>bs xs. map_of (sp j) ''bonds'' = Some bs \<and> bs \<noteq> PNone \<and> iter bs = Inr xs \<and>
        list_all2 (\<lambda>b bd. new_Bond b = Inr bd) xs (bonds opt))"
proof -
  from assms obtain opt0 ss state_list opt1 ps pair_list opt2 opt3 where st:
    "new_MSIBI j = Inr opt0"
    "add_states (ws j) opt0 state_list = Inr opt1"
    "add_pairs e (sp j) opt1 None pair_list = Inr opt2"
    "bond_stage (sp j) opt2 = Inr opt3"
    "angle_stage (sp j) opt3 = Inr opt"
    by (rule build_problem_stages)
  from add_states_result [OF st(2)] new_MSIBI_lists [OF st(1)] have "bonds opt1 = []"
    by auto
  with add_pairs_result [OF st(3)] have "bonds opt2 = []" by auto
  with bond_stage_result [OF st(4)] have
    "(map_of (sp j) ''bonds'' = Some PNone \<and> bonds opt3 = []) \<or>
     (\<exists>bs xs. map_of (sp j) ''bonds'' = Some bs \<and> bs \<noteq> PNone \<and> iter bs = Inr xs \<and>
        list_all2 (\<lambda>b bd. new_Bond b = Inr bd) xs (bonds opt3))"
    by auto
  with angle_stage_same [OF st(5)] show ?thesis by simp
qed

lemma build_problem_angles:
  assumes "build_problem e j = Inr opt"
  shows "angles opt = []"
proof -
  from assms obtain opt0 ss state_list opt1 ps pair_list opt2 opt3 where st:
    "new_MSIBI j = Inr opt0"
    "add_states (ws j) opt0 state_list = Inr opt1"
    "add_pairs e (sp j) opt1 None pair_list = Inr opt2"
    "bond_stage (sp j) opt2 = Inr opt3"
    "angle_stage (sp j) opt3 = Inr opt"
    by (rule build_problem_stages)
  from add_states_result [OF st(2)] new_MSIBI_lists [OF st(1)] have "angles opt1 = []"
    by auto
  with add_pairs_result [OF st(3)] have "angles opt2 = []" by auto
  with bond_stage_result [OF st(4)] have "angles opt3 = []" by auto
  with angle_stage_same [OF st(5)] show ?thesis by simp
qed

lemma new_Bond_Inr:
  assumes "new_Bond b = Inr bd"
  shows "getitem b ''type1'' = Inr (bond_type1 bd) \<and> getitem b ''type2'' = Inr (bond_type2 bd) \<and>
    (if getitem b ''form'' = Inr (PStr ''harmonic'')
     then \<exists>k r0. getitem b ''k'' = Inr k \<and> getitem b ''r0'' = Inr r0 \<and>
            bond_harmonic bd = Some (k, r0)
     else bond_harmonic bd = None)"
  using assms by (auto simp: new_Bond_def bindE_Inr_iff split: if_splits)

lemma new_Pair_potential:
  "new_Pair statepoint (Some v) p = Inr pr \<Longrightarrow> pair_potential pr = v"
  unfolding new_Pair_def bindE_Inr_iff by auto

lemma choose_potential_explicit:
  "map_of d ''potential'' = Some v \<Longrightarrow>
   choose_potential e statepoint opt potential (PDict d) = Inr (Some (Given v))"
  by (auto simp: choose_potential_def bindE_def dest: map_of_SomeD intro: rev_image_eqI)

lemma example_assembled: "assemble ex_env ex_job = Inr (ex_problem, ex_kwargs)"
  by (simp add: ex_job_def ex_problem_def ex_kwargs_def stage_defs ex_defs path_defs)

lemma example_keys:
  "map_of (sp ex_job) ''states'' = Some (PList [ex_state])"
  "map_of (sp ex_job) ''pairs'' = Some (PList [ex_pair_explicit, ex_pair])"
  "map_of (sp ex_job) ''bonds'' = Some (PList [ex_bond_harmonic, ex_bond_table])"
  "map_of (sp ex_job) ''angles'' = Some (PList [ex_angle])"
  by (simp_all add: ex_job_def full_statepoint_def template_statepoint_def)

lemma example_plain_assembled:
  "assemble ex_env ex_job_plain = Inr (ex_problem_plain, ex_kwargs)"
  by (simp add: ex_job_plain_def ex_problem_plain_def ex_problem_def ex_kwargs_def
      stage_defs ex_defs path_defs)

lemma example_run:
  "optimize ex_env ex_job =
     ([(''done'', PBool False), (''dr'', PFloat 1), (''pot_r'', PList [PFloat 0, PFloat 1]),
       (''done'', PBool True)], Inr ex_problem)"
  by (simp add: optimize_def doc_after_def ex_job_def ex_problem_def ex_kwargs_def
      stage_defs ex_defs path_defs)

lemma map_of_setitem: "map_of (setitem k v d) = (map_of d)(k \<mapsto> v)"
  by (induction d) (auto simp: fun_eq_iff)

lemma completed_after_started:
  "completed (j\<lparr>doc := doc_after (doc j) [(''done'', PBool False)]\<rparr>) = PBool False"
  by (simp add: completed_def dict_get_def doc_after_def map_of_setitem)

lemma completed_after_finished:
  "completed (j\<lparr>doc := doc_after (doc j)
     [(''done'', PBool False), (''dr'', x), (''pot_r'', y), (''done'', PBool True)]\<rparr>) = PBool True"
  by (simp add: completed_def dict_get_def doc_after_def map_of_setitem)

lemma key_present: "k \<in> set (map fst d) \<Longrightarrow> \<exists>v. map_of d k = Some v"
  by (cases "map_of d k") (auto simp: map_of_eq_None_iff)

lemma key_absent: "k \<notin> set (map fst d) \<Longrightarrow> map_of d k = None"
  by (simp add: map_of_eq_None_iff)

lemma declared_names:
  "fst get_parameters =
     [''potential_cutoff'', ''num_rdf_points'', ''num_rdf_frames'', ''smooth_rdf'',
      ''rdf_exclude_bonded'', ''r_switch'', ''integrator'', ''integrator_kwargs'', ''dt'',
      ''gsd_period'', ''initial_potential'', ''iterations'', ''n_steps'', ''states'',
      ''pairs'', ''bonds'', ''angles'']"
  by (simp add: get_parameters_def expand_def parameters_def)

lemma template_names:
  "map fst (template_statepoint family state_list pair_list bond_list angle_list) =
     fst get_parameters"
  by (simp add: declared_names template_statepoint_def)

lemma new_Pair_reads_head_correction:
  "new_Pair statepoint before q = Inr pr \<Longrightarrow> \<exists>h. map_of statepoint ''head_correction'' = Some h"
  unfolding new_Pair_def bindE_Inr_iff getattr_Inr_iff by blast

lemma optimize_of_build_error:
  assumes "build_problem e (j\<lparr>doc := doc_after (doc j) [(''done'', PBool False)]\<rparr>) = Inl err"
  shows "optimize e j = ([(''done'', PBool False)], Inl err)"
  using assms by (simp add: optimize_def assemble_def bindE_def)

lemma optimize_of_kwargs_error:
  assumes "build_problem e (j\<lparr>doc := doc_after (doc j) [(''done'', PBool False)]\<rparr>) = Inr opt"
    and "optimize_pairs_kwargs (sp j) = Inl err"
  shows "optimize e j = ([(''done'', PBool False)], Inl err)"
  using assms by (simp add: optimize_def assemble_def bindE_def)

lemma split_sep_head:
  "CHR ''/'' \<notin> set c \<Longrightarrow> split_sep (c @ CHR ''/'' # r) = c # split_sep r"
  by (induction c) auto

lemma split_sep_single: "CHR ''/'' \<notin> set c \<Longrightarrow> split_sep c = [c]"
  by (induction c) auto

lemma split_sep_sep_join:
  "xs \<noteq> [] \<Longrightarrow> \<forall>c \<in> set xs. CHR ''/'' \<notin> set c \<Longrightarrow> split_sep (sep_join xs) = xs"
proof (induction xs rule: sep_join.induct)
  case 1
  then show ?case by simp
next
  case (2 c)
  then show ?case by (simp add: split_sep_single)
next
  case (3 c d cs)
  then show ?case by (simp add: split_sep_head)
qed

lemma sep_join_append:
  "xs \<noteq> [] \<Longrightarrow> ys \<noteq> [] \<Longrightarrow> sep_join (xs @ ys) = sep_join xs @ ''/'' @ sep_join ys"
proof (induction xs rule: sep_join.induct)
  case 1
  then show ?case by simp
next
  case (2 c)
  then show ?case by (cases ys) simp_all
next
  case (3 c d cs)
  then show ?case by simp
qed

lemma sep_join_starts:
  "xs \<noteq> [] \<Longrightarrow> hd xs \<noteq> [] \<Longrightarrow> sep_join xs \<noteq> [] \<and> hd (sep_join xs) = hd (hd xs)"
  by (induction xs rule: sep_join.induct) simp_all

lemma sep_join_ends:
  "xs \<noteq> [] \<Longrightarrow> last xs \<noteq> [] \<Longrightarrow> sep_join xs \<noteq> [] \<and> last (sep_join xs) = last (last xs)"
  by (induction xs rule: sep_join.induct) simp_all

lemma plain_facts:
  assumes "plain c"
  shows "c \<noteq> [] \<and> CHR ''/'' \<notin> set c \<and> hd c \<noteq> CHR ''/'' \<and> last c \<noteq> CHR ''/'' \<and>
     c \<noteq> ''.'' \<and> c \<noteq> ''..''"
proof -
  from assms have ne: "c \<noteq> []" and ns: "CHR ''/'' \<notin> set c"
    by (simp_all add: plain_def)
  from ne ns have "hd c \<noteq> CHR ''/''" by (metis hd_in_set)
  moreover from ne ns have "last c \<noteq> CHR ''/''" by (metis last_in_set)
  ultimately show ?thesis using assms by (simp add: plain_def)
qed

lemma join2_component:
  assumes "xs \<noteq> []" "last xs \<noteq> []" "last (last xs) \<noteq> CHR ''/''" "\<not> startswith_sep c"
  shows "join2 (abs_path xs) c = abs_path xs @ ''/'' @ c"
proof -
  from sep_join_ends [OF assms(1,2)] assms(3)
  have "abs_path xs \<noteq> [] \<and> last (abs_path xs) \<noteq> CHR ''/''"
    by (simp add: abs_path_def)
  with assms(4) show ?thesis by (simp add: join2_def)
qed

lemma norm_step_plain: "plain c \<Longrightarrow> norm_step n acc c = acc @ [c]"
  by (simp add: norm_step_def plain_def)

lemma foldl_norm_step_plain:
  "list_all plain xs \<Longrightarrow> foldl (norm_step n) acc xs = acc @ xs"
  by (induction xs arbitrary: acc) (simp_all add: norm_step_plain)

lemma norm_step_up: "plain c \<Longrightarrow> norm_step (Suc 0) (acc @ [c]) ''..'' = acc"
  by (simp add: norm_step_def plain_def)

lemma traj_file_path_plain:
  assumes comps: "list_all plain (cs @ [a, b] @ ts)" and target: "ts \<noteq> []"
  shows "traj_file_path (abs_path (cs @ [a, b])) (sep_join ts) = abs_path (cs @ ts)"
proof -
  let ?w = "abs_path (cs @ [a, b])"
  let ?up = "cs @ [a, b, ''..'', ''..'']"
  from comps have pa: "plain a" and pb: "plain b" and pcs: "list_all plain cs"
    and pts: "list_all plain ts"
    by simp_all
  from pts target have phd: "plain (hd ts)" by (cases ts) simp_all
  have rel: "\<not> startswith_sep (sep_join ts)"
    using sep_join_starts [OF target] plain_facts [OF phd]
    by (cases "sep_join ts") (auto simp: startswith_sep_def)
  have dots: "\<not> startswith_sep ''..''" by (simp add: startswith_sep_def)
  have j1: "join2 ?w ''..'' = abs_path (cs @ [a, b, ''..''])"
    using join2_component [of "cs @ [a, b]" "''..''"] plain_facts [OF pb] dots
      sep_join_append [of "cs @ [a, b]" "[''..'']"]
    by (simp add: abs_path_def)
  have j2: "join2 (abs_path (cs @ [a, b, ''..''])) ''..'' = abs_path ?up"
    using join2_component [of "cs @ [a, b, ''..'']" "''..''"] dots
      sep_join_append [of "cs @ [a, b, ''..'']" "[''..'']"]
    by (simp add: abs_path_def)
  have j3: "join2 (abs_path ?up) (sep_join ts) = abs_path (?up @ ts)"
    using join2_component [of ?up "sep_join ts"] rel sep_join_append [of ?up ts] target
    by (simp add: abs_path_def)
  have joined: "path_join ?w [''..'', ''..'', sep_join ts] = abs_path (?up @ ts)"
    by (simp add: path_join_def j1 j2 j3)
  have noslash: "\<forall>c \<in> set (?up @ ts). CHR ''/'' \<notin> set c"
    using comps by (auto simp: list_all_iff plain_def)
  have parts: "split_sep (abs_path (?up @ ts)) = [] # (?up @ ts)"
    using split_sep_head [of "[]" "sep_join (?up @ ts)"] split_sep_sep_join [OF _ noslash]
    by (simp add: abs_path_def)
  have first: "plain (hd (?up @ ts))"
    using pa pcs by (cases cs) simp_all
  have second: "take 2 (abs_path (?up @ ts)) \<noteq> ''//''"
    using sep_join_starts [of "?up @ ts"] plain_facts [OF first]
    by (cases "sep_join (?up @ ts)") (auto simp: abs_path_def)
  have walk: "foldl (norm_step (Suc 0)) [] ([] # (?up @ ts)) = cs @ ts"
  proof -
    have "foldl (norm_step (Suc 0)) [] ([] # (?up @ ts)) =
        foldl (norm_step (Suc 0)) (foldl (norm_step (Suc 0))
          (foldl (norm_step (Suc 0)) [] (cs @ [a, b])) [''..'', ''..'']) ts"
      by (simp add: norm_step_def)
    also have "foldl (norm_step (Suc 0)) [] (cs @ [a, b]) = (cs @ [a]) @ [b]"
      using foldl_norm_step_plain [of "cs @ [a, b]" "Suc 0" "[]"] pcs pa pb by simp
    also have "foldl (norm_step (Suc 0)) ((cs @ [a]) @ [b]) [''..'', ''..''] = cs"
      using norm_step_up [OF pb, of "cs @ [a]"] norm_step_up [OF pa, of cs] by simp
    also have "foldl (norm_step (Suc 0)) cs ts = cs @ ts"
      by (rule foldl_norm_step_plain [OF pts])
    finally show ?thesis .
  qed
  have "normpath (abs_path (?up @ ts)) = abs_path (cs @ ts)"
    using second parts walk
    by (simp add: normpath_def abs_path_def startswith_sep_def Let_def)
  moreover have "startswith_sep (abs_path (?up @ ts))"
    by (simp add: abs_path_def startswith_sep_def)
  ultimately show ?thesis
    by (simp add: traj_file_path_def abspath_def joined)
qed

lemma fspath_Inr: "fspath v = Inr t \<Longrightarrow> v = PStr t"
  by (cases v) simp_all

lemma new_State_Inr:
  assumes "new_State w s = Inr st"
  shows "(\<exists>t. getitem s ''target_trajectory'' = Inr (PStr t) \<and>
            state_traj_file st = abspath w (path_join w [''..'', ''..'', t])) \<and>
     getitem s ''name'' = Inr (state_name st) \<and> getitem s ''kT'' = Inr (state_kT st) \<and>
     getitem s ''alpha'' = Inr (state_alpha st) \<and> state_dir st = w"
  using assms
  by (auto simp: new_State_def bindE_Inr_iff traj_file_path_def dest!: fspath_Inr)

lemma add_pairs_isfile:
  "add_pairs (e\<lparr>isfile := f\<rparr>) statepoint opt before xs = add_pairs e statepoint opt before xs"
proof (induction xs arbitrary: opt before)
  case Nil
  show ?case by simp
next
  case (Cons p xs)
  have "choose_potential (e\<lparr>isfile := f\<rparr>) statepoint opt before p =
      choose_potential e statepoint opt before p"
    by (simp add: choose_potential_def cong: if_cong)
  with Cons show ?case by (simp split: sum.splits)
qed

lemma optimize_isfile: "optimize (e\<lparr>isfile := f\<rparr>) j = optimize e j"
  by (simp add: optimize_def assemble_def build_problem_def add_pairs_isfile Let_def
      cong: sum.case_cong prod.case_cong)

section \<open>Claims about the assembly\<close>

text \<open>
  C6. Whenever the assembly gets as far as the call of \<^verbatim>\<open>optimize_pairs\<close>: with
  \<^verbatim>\<open>bonds\<close> \<^verbatim>\<open>None\<close> the optimizer handed over has no bond; with a list, its bonds are
  the entries one for one and in order, each with the two types of its entry, with \<open>k\<close>
  and \<open>r0\<close> when the form of the entry is \<^verbatim>\<open>"harmonic"\<close> and without parameters when
  the form is anything else.
\<close>

theorem bonds_assembled:
  "assemble e j = Inr (opt, kw) \<Longrightarrow>
   (map_of (sp j) ''bonds'' = Some PNone \<longrightarrow> bonds opt = []) \<and>
   (\<forall>bs. map_of (sp j) ''bonds'' = Some (PList bs) \<longrightarrow>
      list_all2 (\<lambda>b bd.
        getitem b ''type1'' = Inr (bond_type1 bd) \<and> getitem b ''type2'' = Inr (bond_type2 bd) \<and>
        (if getitem b ''form'' = Inr (PStr ''harmonic'')
         then \<exists>k r0. getitem b ''k'' = Inr k \<and> getitem b ''r0'' = Inr r0 \<and>
                bond_harmonic bd = Some (k, r0)
         else bond_harmonic bd = None)) bs (bonds opt))"
proof -
  assume "assemble e j = Inr (opt, kw)"
  then have built: "build_problem e j = Inr opt" by (simp add: assemble_Inr)
  from build_problem_bonds [OF built] have none: "map_of (sp j) ''bonds'' = Some PNone \<longrightarrow> bonds opt = []"
    by auto
  have some: "list_all2 (\<lambda>b bd.
        getitem b ''type1'' = Inr (bond_type1 bd) \<and> getitem b ''type2'' = Inr (bond_type2 bd) \<and>
        (if getitem b ''form'' = Inr (PStr ''harmonic'')
         then \<exists>k r0. getitem b ''k'' = Inr k \<and> getitem b ''r0'' = Inr r0 \<and>
                bond_harmonic bd = Some (k, r0)
         else bond_harmonic bd = None)) bs (bonds opt)"
    if "map_of (sp j) ''bonds'' = Some (PList bs)" for bs
  proof -
    from build_problem_bonds [OF built] that
    have "list_all2 (\<lambda>b bd. new_Bond b = Inr bd) bs (bonds opt)" by auto
    then show ?thesis
      by (rule list_all2_mono) (rule new_Bond_Inr)
  qed
  from none some show ?thesis by blast
qed

theorem bonds_assembled_witness:
  "assemble ex_env ex_job = Inr (ex_problem, ex_kwargs) \<and>
   map_of (sp ex_job) ''bonds'' = Some (PList [ex_bond_harmonic, ex_bond_table]) \<and>
   list_all2 (\<lambda>b bd.
        getitem b ''type1'' = Inr (bond_type1 bd) \<and> getitem b ''type2'' = Inr (bond_type2 bd) \<and>
        (if getitem b ''form'' = Inr (PStr ''harmonic'')
         then \<exists>k r0. getitem b ''k'' = Inr k \<and> getitem b ''r0'' = Inr r0 \<and>
                bond_harmonic bd = Some (k, r0)
         else bond_harmonic bd = None))
     [ex_bond_harmonic, ex_bond_table] (bonds ex_problem) \<and>
   bonds ex_problem =
     [\<lparr>bond_type1 = PStr ''A'', bond_type2 = PStr ''B'',
        bond_harmonic = Some (PFloat 100, PFloat 1)\<rparr>,
      \<lparr>bond_type1 = PStr ''B'', bond_type2 = PStr ''B'', bond_harmonic = None\<rparr>] \<and>
   assemble ex_env ex_job_plain = Inr (ex_problem_plain, ex_kwargs) \<and>
   map_of (sp ex_job_plain) ''bonds'' = Some PNone \<and>
   bonds ex_problem_plain = []"
proof -
  from bonds_assembled [OF example_assembled] example_keys(3)
  have "list_all2 (\<lambda>b bd.
        getitem b ''type1'' = Inr (bond_type1 bd) \<and> getitem b ''type2'' = Inr (bond_type2 bd) \<and>
        (if getitem b ''form'' = Inr (PStr ''harmonic'')
         then \<exists>k r0. getitem b ''k'' = Inr k \<and> getitem b ''r0'' = Inr r0 \<and>
                bond_harmonic bd = Some (k, r0)
         else bond_harmonic bd = None))
     [ex_bond_harmonic, ex_bond_table] (bonds ex_problem)"
    by blast
  moreover have "bonds ex_problem =
     [\<lparr>bond_type1 = PStr ''A'', bond_type2 = PStr ''B'',
        bond_harmonic = Some (PFloat 100, PFloat 1)\<rparr>,
      \<lparr>bond_type1 = PStr ''B'', bond_type2 = PStr ''B'', bond_harmonic = None\<rparr>]"
    by (simp add: ex_problem_def)
  moreover have absent: "map_of (sp ex_job_plain) ''bonds'' = Some PNone"
    by (simp add: ex_job_plain_def full_statepoint_def template_statepoint_def)
  moreover from bonds_assembled [OF example_plain_assembled] absent
  have "bonds ex_problem_plain = []" by blast
  ultimately show ?thesis
    using example_assembled example_keys(3) example_plain_assembled by blast
qed

text \<open>
  C8. In an assembly that reaches the call of \<^verbatim>\<open>optimize_pairs\<close>, a pair entry with the
  key \<^verbatim>\<open>potential\<close> gives a Pair whose potential is the value under that key, unchanged;
  the choice does not look at the family, at the environment or at the earlier value
  of the variable.
\<close>

theorem explicit_potential_verbatim:
  "assemble e j = Inr (opt, kw) \<Longrightarrow> map_of (sp j) ''pairs'' = Some (PList ps) \<Longrightarrow>
   i < length ps \<Longrightarrow> ps ! i = PDict d \<Longrightarrow> map_of d ''potential'' = Some v \<Longrightarrow>
   length (pairs opt) = length ps \<and> pair_potential (pairs opt ! i) = Given v \<and>
   (\<forall>e' statepoint' opt' before.
      choose_potential e' statepoint' opt' before (ps ! i) = Inr (Some (Given v)))"
proof -
  assume asm: "assemble e j = Inr (opt, kw)" "map_of (sp j) ''pairs'' = Some (PList ps)"
    "i < length ps" "ps ! i = PDict d" "map_of d ''potential'' = Some v"
  from asm(1) have built: "build_problem e j = Inr opt" by (simp add: assemble_Inr)
  have always: "choose_potential e' statepoint' opt' before (ps ! i) = Inr (Some (Given v))"
    for e' statepoint' opt' before
    using asm(4,5) by (simp add: choose_potential_explicit)
  from build_problem_pairs [OF built] asm(2) have len: "length (pairs opt) = length ps"
    and each: "\<forall>i < length ps. \<exists>before u handed.
        choose_potential e (sp j) handed before (ps ! i) = Inr (Some u) \<and>
        new_Pair (sp j) (Some u) (ps ! i) = Inr (pairs opt ! i)"
    by auto
  from each asm(3) obtain before u handed where
    u: "choose_potential e (sp j) handed before (ps ! i) = Inr (Some u)"
      "new_Pair (sp j) (Some u) (ps ! i) = Inr (pairs opt ! i)"
    by blast
  from u(1) always have "u = Given v" by simp
  with new_Pair_potential [OF u(2)] have "pair_potential (pairs opt ! i) = Given v" by simp
  with len always show ?thesis by blast
qed

theorem explicit_potential_verbatim_witness:
  "assemble ex_env ex_job = Inr (ex_problem, ex_kwargs) \<and>
   map_of (sp ex_job) ''pairs'' = Some (PList [ex_pair_explicit, ex_pair]) \<and>
   [ex_pair_explicit, ex_pair] ! 0 =
     PDict [(''type1'', PStr ''A''), (''type2'', PStr ''B''), (''potential'', ex_table)] \<and>
   length (pairs ex_problem) = 2 \<and>
   pair_potential (pairs ex_problem ! 0) = Given ex_table"
proof -
  have entry: "[ex_pair_explicit, ex_pair] ! 0 =
     PDict [(''type1'', PStr ''A''), (''type2'', PStr ''B''), (''potential'', ex_table)]"
    by (simp add: ex_pair_explicit_def)
  have key: "map_of [(''type1'', PStr ''A''), (''type2'', PStr ''B''), (''potential'', ex_table)]
      ''potential'' = Some ex_table"
    by simp
  have "0 < length [ex_pair_explicit, ex_pair]" by simp
  from explicit_potential_verbatim [OF example_assembled example_keys(2) this entry key]
  show ?thesis
    using example_assembled example_keys(2) entry by simp
qed

text \<open>
  C2. The specification: for a declared angles list every entry gives an Angle, with
  \<open>k\<close> and \<open>theta0\<close> when its form is \<^verbatim>\<open>"harmonic"\<close>, and every such Angle is part of
  the problem handed to the optimizer. The code, at a job with one harmonic angle: the
  loop builds the Angle with its \<open>k\<close> and \<open>theta0\<close>; the run completes, and the
  optimizer that \<^verbatim>\<open>optimize_pairs\<close> was called on holds no angle, while it holds the two
  bonds of the job. The loop over the bonds ends with \<^verbatim>\<open>opt.add_bond(new_bond)\<close>; the
  loop over the angles has no such call.
\<close>

theorem angles_not_handed_over:
  "map_of (sp ex_job) ''angles'' = Some (PList [ex_angle]) \<and>
   new_Angle ex_angle =
     Inr \<lparr>angle_type1 = PStr ''A'', angle_type2 = PStr ''B'', angle_type3 = PStr ''A'',
          angle_harmonic = Some (PFloat 50, PFloat 2)\<rparr> \<and>
   optimize ex_env ex_job =
     ([(''done'', PBool False), (''dr'', PFloat 1), (''pot_r'', PList [PFloat 0, PFloat 1]),
       (''done'', PBool True)], Inr ex_problem) \<and>
   angles ex_problem = [] \<and> length (bonds ex_problem) = 2"
proof -
  have "new_Angle ex_angle =
     Inr \<lparr>angle_type1 = PStr ''A'', angle_type2 = PStr ''B'', angle_type3 = PStr ''A'',
          angle_harmonic = Some (PFloat 50, PFloat 2)\<rparr>"
    by (simp add: new_Angle_def ex_angle_def bindE_def)
  moreover have "angles ex_problem = [] \<and> length (bonds ex_problem) = 2"
    by (simp add: ex_problem_def)
  ultimately show ?thesis
    using example_run example_keys(4) by simp
qed

text \<open>
  C1. The specification: a pair without the key \<^verbatim>\<open>potential\<close> gets a Morse potential
  for the family \<^verbatim>\<open>"morse"\<close>, a Mie potential for \<^verbatim>\<open>"mie"\<close>, and any other family
  is an error of its own, the potential never being left unset. The code, at the
  family \<^verbatim>\<open>"lj"\<close>: the \<^verbatim>\<open>if\<close>/\<^verbatim>\<open>elif\<close> assigns nothing and raises nothing. With
  that pair alone, the call \<^verbatim>\<open>Pair(...)\<close> then reads an unbound local variable. With
  a pair before it that has an explicit potential, the variable still holds that
  potential, the run completes, and both Pairs carry the table of the first.
\<close>

theorem unknown_family_falls_through:
  "choose_potential ex_env
     (full_statepoint (PStr ''lj'') (PList [ex_state]) (PList [ex_pair]) PNone PNone)
     ex_problem None ex_pair = Inr None \<and>
   optimize ex_env
     \<lparr>sp = full_statepoint (PStr ''lj'') (PList [ex_state]) (PList [ex_pair]) PNone PNone,
      doc = ex_doc, ws = ex_ws\<rparr> =
     ([(''done'', PBool False)], Inl (UnboundLocalError ''potential'')) \<and>
   map_sum id (\<lambda>opt. map pair_potential (pairs opt))
     (snd (optimize ex_env
       \<lparr>sp = full_statepoint (PStr ''lj'') (PList [ex_state])
          (PList [ex_pair_explicit, ex_pair]) PNone PNone,
        doc = ex_doc, ws = ex_ws\<rparr>)) =
     Inr [Given ex_table, Given ex_table]"
  by (simp add: optimize_def doc_after_def stage_defs ex_defs path_defs)

text \<open>
  C7. A document without the key \<^verbatim>\<open>done\<close> is reported not completed. Every run of
  \<^verbatim>\<open>optimize\<close> first writes \<^verbatim>\<open>done = False\<close>. A run that ends in an exception, of the
  assembly or of \<^verbatim>\<open>optimize_pairs\<close>, writes nothing else, and leaves \<^verbatim>\<open>done = False\<close>.
  A run that returns has called \<^verbatim>\<open>optimize_pairs\<close> on the assembled optimizer, the call
  has returned, and the writes after it are \<^verbatim>\<open>dr\<close>, \<^verbatim>\<open>pot_r\<close> and last
  \<^verbatim>\<open>done = True\<close>. A job whose document has \<^verbatim>\<open>done = True\<close> meets the post-condition
  and the operation is not run on it.
\<close>

theorem done_flag_state_machine:
  "(map_of (doc j) ''done'' = None \<longrightarrow> completed j = PNone \<and> \<not> truthy (completed j)) \<and>
   (completed j = PBool True \<longrightarrow> truthy (completed j) \<and> run_optimize e j = None) \<and>
   (\<not> truthy (completed j) \<longrightarrow> run_optimize e j = Some (optimize e j)) \<and>
   (case snd (optimize e j) of
      Inl err \<Rightarrow>
        fst (optimize e j) = [(''done'', PBool False)] \<and>
        completed (j\<lparr>doc := doc_after (doc j) (fst (optimize e j))\<rparr>) = PBool False
    | Inr opt \<Rightarrow>
        (\<exists>kw dr grid.
           assemble e (j\<lparr>doc := doc_after (doc j) [(''done'', PBool False)]\<rparr>) = Inr (opt, kw) \<and>
           optimize_pairs e opt kw = Inr (dr, grid) \<and>
           fst (optimize e j) =
             [(''done'', PBool False), (''dr'', dr), (''pot_r'', grid), (''done'', PBool True)]) \<and>
        completed (j\<lparr>doc := doc_after (doc j) (fst (optimize e j))\<rparr>) = PBool True)"
proof -
  have not_started: "map_of (doc j) ''done'' = None \<longrightarrow> completed j = PNone \<and> \<not> truthy (completed j)"
    by (simp add: completed_def dict_get_def)
  have skipped: "completed j = PBool True \<longrightarrow> truthy (completed j) \<and> run_optimize e j = None"
    by (simp add: run_optimize_def)
  have eligible: "\<not> truthy (completed j) \<longrightarrow> run_optimize e j = Some (optimize e j)"
    by (simp add: run_optimize_def)
  let ?j0 = "j\<lparr>doc := doc_after (doc j) [(''done'', PBool False)]\<rparr>"
  have run: "(case snd (optimize e j) of
      Inl err \<Rightarrow>
        fst (optimize e j) = [(''done'', PBool False)] \<and>
        completed (j\<lparr>doc := doc_after (doc j) (fst (optimize e j))\<rparr>) = PBool False
    | Inr opt \<Rightarrow>
        (\<exists>kw dr grid.
           assemble e ?j0 = Inr (opt, kw) \<and>
           optimize_pairs e opt kw = Inr (dr, grid) \<and>
           fst (optimize e j) =
             [(''done'', PBool False), (''dr'', dr), (''pot_r'', grid), (''done'', PBool True)]) \<and>
        completed (j\<lparr>doc := doc_after (doc j) (fst (optimize e j))\<rparr>) = PBool True)"
  proof (cases "assemble e ?j0")
    case (Inl err)
    then have "optimize e j = ([(''done'', PBool False)], Inl err)"
      by (simp add: optimize_def)
    then show ?thesis by (simp add: completed_after_started)
  next
    case (Inr r)
    obtain opt kw where r: "r = (opt, kw)" by (cases r)
    show ?thesis
    proof (cases "optimize_pairs e opt kw")
      case (Inl err)
      with Inr r have "optimize e j = ([(''done'', PBool False)], Inl err)"
        by (simp add: optimize_def)
      then show ?thesis by (simp add: completed_after_started)
    next
      case inner: (Inr res)
      obtain dr grid where res: "res = (dr, grid)" by (cases res)
      from Inr r inner res have "optimize e j =
          ([(''done'', PBool False), (''dr'', dr), (''pot_r'', grid), (''done'', PBool True)],
           Inr opt)"
        by (simp add: optimize_def)
      with Inr r inner res show ?thesis by (simp add: completed_after_finished)
    qed
  qed
  from not_started skipped eligible run show ?thesis by blast
qed

theorem done_flag_state_machine_witness:
  "map_of (doc ex_job) ''done'' = None \<and> completed ex_job = PNone \<and>
   run_optimize ex_env ex_job =
     Some ([(''done'', PBool False), (''dr'', PFloat 1), (''pot_r'', PList [PFloat 0, PFloat 1]),
            (''done'', PBool True)], Inr ex_problem) \<and>
   completed (ex_job\<lparr>doc := doc_after (doc ex_job) (fst (optimize ex_env ex_job))\<rparr>) = PBool True \<and>
   run_optimize ex_env
     (ex_job\<lparr>doc := doc_after (doc ex_job) (fst (optimize ex_env ex_job))\<rparr>) = None"
proof -
  let ?done = "ex_job\<lparr>doc := doc_after (doc ex_job) (fst (optimize ex_env ex_job))\<rparr>"
  have fresh: "map_of (doc ex_job) ''done'' = None"
    by (simp add: ex_job_def ex_doc_def)
  with done_flag_state_machine [of ex_job ex_env]
  have first: "completed ex_job = PNone" "run_optimize ex_env ex_job = Some (optimize ex_env ex_job)"
    "completed ?done = PBool True"
    by (simp_all add: example_run)
  with done_flag_state_machine [of ?done ex_env]
  have "run_optimize ex_env ?done = None" by blast
  with fresh first show ?thesis by (simp add: example_run)
qed

text \<open>
  C9, amended. A statepoint over the names that \<^verbatim>\<open>get_parameters\<close> declares has no key
  \<^verbatim>\<open>head_correction\<close>, and the call \<^verbatim>\<open>Pair(...)\<close> reads \<^verbatim>\<open>job.sp.head_correction\<close>
  for every pair entry with no guard: once the two types of the entry are read and the
  variable \<^verbatim>\<open>potential\<close> is bound, the call raises \<^verbatim>\<open>AttributeError\<close>. So with at
  least one pair entry no run completes: \<^verbatim>\<open>optimize\<close> ends in an exception with only
  \<^verbatim>\<open>done = False\<close> written, and the exception is that \<^verbatim>\<open>AttributeError\<close> whenever the
  optimizer was constructed, the states were added and the first pair entry has its
  types and a potential. (A run can end earlier, in another exception.)
\<close>

theorem head_correction_unguarded:
  "map fst (sp j) = fst get_parameters \<Longrightarrow> map_of (sp j) ''pairs'' = Some (PList (p # ps)) \<Longrightarrow>
   map_of (sp j) ''head_correction'' = None \<and>
   (\<forall>q v t1 t2. getitem q ''type1'' = Inr t1 \<longrightarrow> getitem q ''type2'' = Inr t2 \<longrightarrow>
      new_Pair (sp j) (Some v) q = Inl (AttributeError ''sp'' ''head_correction'')) \<and>
   (\<exists>err. optimize e j = ([(''done'', PBool False)], Inl err)) \<and>
   (\<forall>opt0 ss state_list opt1 v t1 t2.
      new_MSIBI (j\<lparr>doc := doc_after (doc j) [(''done'', PBool False)]\<rparr>) = Inr opt0 \<longrightarrow>
      map_of (sp j) ''states'' = Some ss \<longrightarrow> iter ss = Inr state_list \<longrightarrow>
      add_states (ws j) opt0 state_list = Inr opt1 \<longrightarrow>
      choose_potential e (sp j) opt1 None p = Inr (Some v) \<longrightarrow>
      getitem p ''type1'' = Inr t1 \<longrightarrow> getitem p ''type2'' = Inr t2 \<longrightarrow>
      optimize e j = ([(''done'', PBool False)], Inl (AttributeError ''sp'' ''head_correction'')))"
proof -
  assume names: "map fst (sp j) = fst get_parameters"
    and entries: "map_of (sp j) ''pairs'' = Some (PList (p # ps))"
  let ?j0 = "j\<lparr>doc := doc_after (doc j) [(''done'', PBool False)]\<rparr>"
  have absent: "map_of (sp j) ''head_correction'' = None"
    by (rule key_absent) (simp add: names declared_names)
  have unguarded: "new_Pair (sp j) (Some v) q = Inl (AttributeError ''sp'' ''head_correction'')"
    if "getitem q ''type1'' = Inr t1" "getitem q ''type2'' = Inr t2" for q v t1 t2
    using that absent by (simp add: new_Pair_def bindE_def getattr_def)
  have never: "\<exists>err. optimize e j = ([(''done'', PBool False)], Inl err)"
  proof (cases "build_problem e ?j0")
    case (Inl err)
    from optimize_of_build_error [OF this] show ?thesis by blast
  next
    case (Inr opt)
    from build_problem_pairs [OF this] entries obtain before v handed where
      "new_Pair (sp j) (Some v) ((p # ps) ! 0) = Inr (pairs opt ! 0)"
      by fastforce
    from new_Pair_reads_head_correction [OF this] absent show ?thesis by simp
  qed
  have reached: "optimize e j = ([(''done'', PBool False)], Inl (AttributeError ''sp'' ''head_correction''))"
    if "new_MSIBI ?j0 = Inr opt0" "map_of (sp j) ''states'' = Some ss" "iter ss = Inr state_list"
      "add_states (ws j) opt0 state_list = Inr opt1"
      "choose_potential e (sp j) opt1 None p = Inr (Some v)"
      "getitem p ''type1'' = Inr t1" "getitem p ''type2'' = Inr t2"
    for opt0 ss state_list opt1 v t1 t2
  proof -
    have "build_problem e ?j0 = Inl (AttributeError ''sp'' ''head_correction'')"
      using that entries unguarded [OF that(6,7), of v]
      by (simp add: build_problem_def bindE_def getattr_def)
    from optimize_of_build_error [OF this] show ?thesis .
  qed
  from absent unguarded never reached show ?thesis by blast
qed

theorem head_correction_unguarded_witness:
  "map fst (template_statepoint (PStr ''mie'') (PList [ex_state]) (PList [ex_pair]) PNone PNone)
     = fst get_parameters \<and>
   map_of (template_statepoint (PStr ''mie'') (PList [ex_state]) (PList [ex_pair]) PNone PNone)
     ''pairs'' = Some (PList [ex_pair]) \<and>
   optimize ex_env
     \<lparr>sp = template_statepoint (PStr ''mie'') (PList [ex_state]) (PList [ex_pair]) PNone PNone,
      doc = ex_doc, ws = ex_ws\<rparr> =
     ([(''done'', PBool False)], Inl (AttributeError ''sp'' ''head_correction''))"
proof -
  let ?sp = "template_statepoint (PStr ''mie'') (PList [ex_state]) (PList [ex_pair]) PNone PNone"
  let ?j = "\<lparr>sp = ?sp, doc = ex_doc, ws = ex_ws\<rparr>"
  have names: "map fst (sp ?j) = fst get_parameters" by (simp add: template_names)
  have entries: "map_of (sp ?j) ''pairs'' = Some (PList (ex_pair # []))"
    by (simp add: template_statepoint_def)
  have "new_MSIBI (?j\<lparr>doc := doc_after (doc ?j) [(''done'', PBool False)]\<rparr>) =
      Inr \<lparr>integrator = PStr ''hoomd.md.methods.NVT'',
        integrator_kwargs = PDict [(''tau'', PFloat (1 / 10))],
        dt = PFloat (1 / 1000), gsd_period = PInt 1000,
        n_iterations = PInt 20, n_steps = PFloat 1000000,
        states = [], pairs = [], bonds = [], angles = []\<rparr>"
    by (simp add: new_MSIBI_def doc_after_def bindE_def getattr_def template_statepoint_def
        ex_doc_def)
  moreover have "map_of (sp ?j) ''states'' = Some (PList [ex_state])"
    by (simp add: template_statepoint_def)
  moreover have "iter (PList [ex_state]) = Inr [ex_state]" by simp
  moreover have "\<exists>opt1. add_states (ws ?j) \<lparr>integrator = PStr ''hoomd.md.methods.NVT'',
        integrator_kwargs = PDict [(''tau'', PFloat (1 / 10))],
        dt = PFloat (1 / 1000), gsd_period = PInt 1000,
        n_iterations = PInt 20, n_steps = PFloat 1000000,
        states = [], pairs = [], bonds = [], angles = []\<rparr> [ex_state] = Inr opt1"
    by (simp add: new_State_def bindE_def ex_state_def)
  moreover have "choose_potential ex_env (sp ?j) opt1 None ex_pair =
      Inr (Some (mie (PFloat 5) (PFloat 1) (PFloat 1)))" for opt1
    by (simp add: choose_potential_def bindE_def getattr_def template_statepoint_def ex_pair_def)
  moreover have "getitem ex_pair ''type1'' = Inr (PStr ''A'')"
    "getitem ex_pair ''type2'' = Inr (PStr ''A'')"
    by (simp_all add: ex_pair_def)
  ultimately have "optimize ex_env ?j =
      ([(''done'', PBool False)], Inl (AttributeError ''sp'' ''head_correction''))"
    using head_correction_unguarded [OF names entries, of ex_env] by blast
  with names entries show ?thesis by simp
qed

text \<open>
  C9, counterexample: a statepoint over the declared names with one pair entry, the
  empty dictionary of the source. The run ends with \<^verbatim>\<open>KeyError\<close> at \<^verbatim>\<open>pair["type1"]\<close>,
  the first argument of \<^verbatim>\<open>Pair(...)\<close>, before \<^verbatim>\<open>job.sp.head_correction\<close> is read.
\<close>

theorem pair_without_types_ends_earlier:
  "map fst (template_statepoint (PStr ''mie'') (PList [ex_state]) (PList [PDict []]) PNone PNone)
     = fst get_parameters \<and>
   map_of (template_statepoint (PStr ''mie'') (PList [ex_state]) (PList [PDict []]) PNone PNone)
     ''pairs'' = Some (PList [PDict []]) \<and>
   optimize ex_env
     \<lparr>sp = template_statepoint (PStr ''mie'') (PList [ex_state]) (PList [PDict []]) PNone PNone,
      doc = ex_doc, ws = ex_ws\<rparr> =
     ([(''done'', PBool False)], Inl (KeyError ''type1''))"
  by (simp add: declared_names optimize_def doc_after_def stage_defs ex_defs path_defs)

text \<open>
  C10, amended. A statepoint over the names that \<^verbatim>\<open>get_parameters\<close> declares has no key
  \<^verbatim>\<open>r_min\<close>, and the arguments of \<^verbatim>\<open>optimize_pairs\<close> read \<^verbatim>\<open>job.sp.r_min\<close> with no
  guard: their evaluation raises \<^verbatim>\<open>AttributeError\<close> at the third argument. So
  \<^verbatim>\<open>optimize_pairs\<close> is never called: every run ends in an exception with only
  \<^verbatim>\<open>done = False\<close> written, and the exception is that \<^verbatim>\<open>AttributeError\<close> whenever the
  stages before the call succeed. (A run can end earlier, in another exception.)
\<close>

theorem r_min_unguarded:
  "map fst (sp j) = fst get_parameters \<Longrightarrow>
   map_of (sp j) ''r_min'' = None \<and>
   optimize_pairs_kwargs (sp j) = Inl (AttributeError ''sp'' ''r_min'') \<and>
   (\<exists>err. assemble e j = Inl err) \<and>
   (\<exists>err. optimize e j = ([(''done'', PBool False)], Inl err)) \<and>
   (\<forall>opt. build_problem e (j\<lparr>doc := doc_after (doc j) [(''done'', PBool False)]\<rparr>) = Inr opt \<longrightarrow>
      optimize e j = ([(''done'', PBool False)], Inl (AttributeError ''sp'' ''r_min'')))"
proof -
  assume names: "map fst (sp j) = fst get_parameters"
  let ?j0 = "j\<lparr>doc := doc_after (doc j) [(''done'', PBool False)]\<rparr>"
  have absent: "map_of (sp j) ''r_min'' = None"
    by (rule key_absent) (simp add: names declared_names)
  obtain frames where frames: "map_of (sp j) ''num_rdf_frames'' = Some frames"
    using key_present [of "''num_rdf_frames''" "sp j"] by (auto simp: names declared_names)
  obtain cutoff where cutoff: "map_of (sp j) ''potential_cutoff'' = Some cutoff"
    using key_present [of "''potential_cutoff''" "sp j"] by (auto simp: names declared_names)
  have kwargs: "optimize_pairs_kwargs (sp j) = Inl (AttributeError ''sp'' ''r_min'')"
    using absent frames cutoff by (simp add: optimize_pairs_kwargs_def bindE_def getattr_def)
  have stopped: "\<exists>err. assemble e j' = Inl err" if "sp j' = sp j" for j'
    using kwargs that by (cases "build_problem e j'") (simp_all add: assemble_def bindE_def)
  have never: "\<exists>err. optimize e j = ([(''done'', PBool False)], Inl err)"
  proof -
    from stopped [of ?j0] obtain err where "assemble e ?j0 = Inl err" by auto
    then show ?thesis by (simp add: optimize_def)
  qed
  have reached: "optimize e j = ([(''done'', PBool False)], Inl (AttributeError ''sp'' ''r_min''))"
    if "build_problem e ?j0 = Inr opt" for opt
    using optimize_of_kwargs_error [OF that kwargs] .
  from absent kwargs stopped [of j] never reached show ?thesis by blast
qed

theorem r_min_unguarded_witness:
  "map fst (template_statepoint (PStr ''mie'') (PList [ex_state]) (PList []) PNone PNone)
     = fst get_parameters \<and>
   optimize ex_env
     \<lparr>sp = template_statepoint (PStr ''mie'') (PList [ex_state]) (PList []) PNone PNone,
      doc = ex_doc, ws = ex_ws\<rparr> =
     ([(''done'', PBool False)], Inl (AttributeError ''sp'' ''r_min''))"
proof -
  let ?sp = "template_statepoint (PStr ''mie'') (PList [ex_state]) (PList []) PNone PNone"
  let ?j = "\<lparr>sp = ?sp, doc = ex_doc, ws = ex_ws\<rparr>"
  have names: "map fst (sp ?j) = fst get_parameters" by (simp add: template_names)
  have "\<exists>opt. build_problem ex_env (?j\<lparr>doc := doc_after (doc ?j) [(''done'', PBool False)]\<rparr>)
      = Inr opt"
    by (simp add: doc_after_def stage_defs ex_defs)
  with r_min_unguarded [OF names, of ex_env] have "optimize ex_env ?j =
      ([(''done'', PBool False)], Inl (AttributeError ''sp'' ''r_min''))"
    by blast
  with names show ?thesis by simp
qed

text \<open>
  C10, counterexample: the statepoint with the values of the source (three empty
  dictionaries in each structured list). The run ends with \<^verbatim>\<open>KeyError\<close> at
  \<^verbatim>\<open>state["target_trajectory"]\<close>, in the first round of the loop over the states; no
  statepoint attribute that is missing has been read.
\<close>

theorem source_template_ends_at_first_state:
  "map fst (template_statepoint (PStr ''mie'') (PList [PDict [], PDict [], PDict []])
      (PList [PDict [], PDict [], PDict []]) (PList [PDict [], PDict [], PDict []])
      (PList [PDict [], PDict [], PDict []])) = fst get_parameters \<and>
   optimize ex_env
     \<lparr>sp = template_statepoint (PStr ''mie'') (PList [PDict [], PDict [], PDict []])
        (PList [PDict [], PDict [], PDict []]) (PList [PDict [], PDict [], PDict []])
        (PList [PDict [], PDict [], PDict []]),
      doc = ex_doc, ws = ex_ws\<rparr> =
     ([(''done'', PBool False)], Inl (KeyError ''target_trajectory''))"
  by (simp add: declared_names optimize_def doc_after_def stage_defs ex_defs)


text \<open>
  C3, amended. In an assembly that reaches the call of \<^verbatim>\<open>optimize_pairs\<close>, the states
  of the optimizer are the declared entries one for one and in order, each with the
  name, \<open>kT\<close> and \<open>alpha\<close> of its entry, the workspace of the job as directory, and as
  trajectory file \<^verbatim>\<open>abspath(join(job.ws, "..", "..", target))\<close>; for a workspace
  \<^verbatim>\<open>/c1/.../cn/a/b\<close> and a relative target of plain names that is the target under
  \<^verbatim>\<open>/c1/.../cn\<close>, two levels above the workspace. The code makes no test of the
  resolved path: a run is the same whichever files exist.
\<close>

theorem states_resolved:
  "assemble e j = Inr (opt, kw) \<Longrightarrow> map_of (sp j) ''states'' = Some (PList ss) \<Longrightarrow>
   list_all2 (\<lambda>s st.
     (\<exists>t. getitem s ''target_trajectory'' = Inr (PStr t) \<and>
          state_traj_file st = abspath (ws j) (path_join (ws j) [''..'', ''..'', t])) \<and>
     getitem s ''name'' = Inr (state_name st) \<and> getitem s ''kT'' = Inr (state_kT st) \<and>
     getitem s ''alpha'' = Inr (state_alpha st) \<and> state_dir st = ws j) ss (states opt) \<and>
   (\<forall>cs a b ts. ws j = abs_path (cs @ [a, b]) \<longrightarrow> list_all plain (cs @ [a, b] @ ts) \<longrightarrow>
      ts \<noteq> [] \<longrightarrow>
      abspath (ws j) (path_join (ws j) [''..'', ''..'', sep_join ts]) = abs_path (cs @ ts)) \<and>
   (\<forall>present. optimize (e\<lparr>isfile := present\<rparr>) j = optimize e j)"
proof -
  assume asm: "assemble e j = Inr (opt, kw)" "map_of (sp j) ''states'' = Some (PList ss)"
  from asm(1) have built: "build_problem e j = Inr opt" by (simp add: assemble_Inr)
  from build_problem_states [OF built] asm(2)
  have "list_all2 (\<lambda>s st. new_State (ws j) s = Inr st) ss (states opt)" by auto
  then have each: "list_all2 (\<lambda>s st.
     (\<exists>t. getitem s ''target_trajectory'' = Inr (PStr t) \<and>
          state_traj_file st = abspath (ws j) (path_join (ws j) [''..'', ''..'', t])) \<and>
     getitem s ''name'' = Inr (state_name st) \<and> getitem s ''kT'' = Inr (state_kT st) \<and>
     getitem s ''alpha'' = Inr (state_alpha st) \<and> state_dir st = ws j) ss (states opt)"
    by (rule list_all2_mono) (rule new_State_Inr)
  have up: "abspath (ws j) (path_join (ws j) [''..'', ''..'', sep_join ts]) = abs_path (cs @ ts)"
    if "ws j = abs_path (cs @ [a, b])" "list_all plain (cs @ [a, b] @ ts)" "ts \<noteq> []"
    for cs a b ts
    using traj_file_path_plain [OF that(2,3)] that(1) by (simp add: traj_file_path_def)
  from each up optimize_isfile show ?thesis by blast
qed

theorem states_resolved_witness:
  "assemble ex_env ex_job = Inr (ex_problem, ex_kwargs) \<and>
   map_of (sp ex_job) ''states'' = Some (PList [ex_state]) \<and>
   ws ex_job = abs_path ([''home'', ''user'', ''project''] @ [''workspace'', ''0a1b2c'']) \<and>
   list_all plain ([''home'', ''user'', ''project''] @ [''workspace'', ''0a1b2c''] @ [''ref.gsd'']) \<and>
   abspath (ws ex_job) (path_join (ws ex_job) [''..'', ''..'', sep_join [''ref.gsd'']]) =
     abs_path ([''home'', ''user'', ''project''] @ [''ref.gsd'']) \<and>
   map state_traj_file (states ex_problem) = [''/home/user/project/ref.gsd''] \<and>
   abs_path ([''home'', ''user'', ''project''] @ [''ref.gsd'']) = ''/home/user/project/ref.gsd''"
proof -
  have w: "ws ex_job = abs_path ([''home'', ''user'', ''project''] @ [''workspace'', ''0a1b2c''])"
    by (simp add: ex_job_def ex_ws_def abs_path_def)
  have names: "list_all plain
      ([''home'', ''user'', ''project''] @ [''workspace'', ''0a1b2c''] @ [''ref.gsd''])"
    by (simp add: plain_def)
  have "[''ref.gsd''] \<noteq> []" by simp
  with states_resolved [OF example_assembled example_keys(1)] w names
  have "abspath (ws ex_job) (path_join (ws ex_job) [''..'', ''..'', sep_join [''ref.gsd'']]) =
     abs_path ([''home'', ''user'', ''project''] @ [''ref.gsd''])"
    by blast
  moreover have "map state_traj_file (states ex_problem) = [''/home/user/project/ref.gsd'']"
    by (simp add: ex_problem_def)
  moreover have "abs_path ([''home'', ''user'', ''project''] @ [''ref.gsd'']) =
      ''/home/user/project/ref.gsd''"
    by (simp add: abs_path_def)
  ultimately show ?thesis
    using example_assembled example_keys(1) w names by blast
qed

text \<open>
  C3, counterexample: no file exists, the declared target \<^verbatim>\<open>ref.gsd\<close> resolves to
  \<^verbatim>\<open>/home/user/project/ref.gsd\<close>, and the run adds the state with that path, calls
  \<^verbatim>\<open>optimize_pairs\<close> and marks the job done.
\<close>

theorem missing_file_not_detected:
  "getitem ex_state ''target_trajectory'' = Inr (PStr ''ref.gsd'') \<and>
   traj_file_path (ws ex_job) ''ref.gsd'' = ''/home/user/project/ref.gsd'' \<and>
   \<not> isfile ex_env ''/home/user/project/ref.gsd'' \<and>
   optimize ex_env ex_job =
     ([(''done'', PBool False), (''dr'', PFloat 1), (''pot_r'', PList [PFloat 0, PFloat 1]),
       (''done'', PBool True)], Inr ex_problem) \<and>
   map state_traj_file (states ex_problem) = [''/home/user/project/ref.gsd'']"
proof -
  have "traj_file_path (ws ex_job) ''ref.gsd'' = ''/home/user/project/ref.gsd''"
    by (simp add: ex_job_def ex_ws_def path_defs)
  moreover have "getitem ex_state ''target_trajectory'' = Inr (PStr ''ref.gsd'')"
    by (simp add: ex_state_def)
  moreover have "\<not> isfile ex_env ''/home/user/project/ref.gsd''"
    by (simp add: ex_env_def)
  moreover have "map state_traj_file (states ex_problem) = [''/home/user/project/ref.gsd'']"
    by (simp add: ex_problem_def)
  ultimately show ?thesis using example_run by simp
qed


end
